theory Spec2Isabelle
  imports Main "HOL-Library.Word"
begin

section \<open>Topic paths (package mqtt, topic.go)\<close>

text \<open>
  Go strings are byte sequences; a \<^typ>\<open>string\<close> is a list of 8-bit characters, so the
  byte-wise functions of package \<open>strings\<close> translate one to one.
\<close>

definition TopicSeparator :: string where
  "TopicSeparator = ''/''"

text \<open>
  \<open>strings.Trim(s, cutset)\<close> removes every leading and every trailing byte of \<open>s\<close> that
  occurs in \<open>cutset\<close>.
\<close>

definition strings_Trim :: "string \<Rightarrow> string \<Rightarrow> string" where
  "strings_Trim s cutset =
     rev (dropWhile (\<lambda>c. c \<in> set cutset) (rev (dropWhile (\<lambda>c. c \<in> set cutset) s)))"

definition TrimTopic :: "string \<Rightarrow> string" where
  "TrimTopic topic = strings_Trim topic TopicSeparator"

text \<open>
  The loop of \<open>JoinTopic\<close>: \<open>n\<close> is \<open>len(parts)\<close>, \<open>i\<close> the index of the part at the head of
  the remaining list, \<open>result\<close> the contents of the \<open>strings.Builder\<close>. A part that is
  empty or the bare separator is skipped by \<open>continue\<close>; any other part is written trimmed,
  followed by a separator unless its index is the last index of \<open>parts\<close>.
\<close>

fun JoinTopic_loop :: "nat \<Rightarrow> nat \<Rightarrow> string list \<Rightarrow> string \<Rightarrow> string" where
  "JoinTopic_loop n i [] result = result"
| "JoinTopic_loop n i (part # rest) result =
     (if part = '''' \<or> part = TopicSeparator then JoinTopic_loop n (i + 1) rest result
      else JoinTopic_loop n (i + 1) rest
             (if int i \<noteq> int n - 1 then result @ TrimTopic part @ TopicSeparator
              else result @ TrimTopic part))"

definition JoinTopic :: "string list \<Rightarrow> string" where
  "JoinTopic parts = JoinTopic_loop (length parts) 0 parts ''''"

section \<open>Errors, panics and logging\<close>

text \<open>
  Go's \<open>error\<close> values as a tree: \<open>ErrorNew\<close> is an error made by \<open>errors.New\<close> (or by
  \<open>fmt.Errorf\<close> without \<open>%w\<close>, or by an external collaborator) and is identified by its
  message; \<open>Errorf p e\<close> is \<open>fmt.Errorf("p: %w", e)\<close>; \<open>Joined\<close> is the result of
  \<open>errors.Join\<close>; \<open>SemanticError e\<close> is the wrapper package \<open>json\<close> puts around an error
  returned by a \<open>MarshalJSONTo\<close> method. A nil \<open>error\<close> is \<open>None\<close> of \<open>err option\<close>.
\<close>

datatype err =
    ErrorNew string
  | Errorf string err
  | Joined "err list"
  | SemanticError err

text \<open>\<open>errors.Join\<close>: nil arguments are discarded; the result is nil when all are nil.\<close>

definition errors_Join :: "err option list \<Rightarrow> err option" where
  "errors_Join errs =
     (case List.map_filter (\<lambda>e. e) errs of [] \<Rightarrow> None | e # es \<Rightarrow> Some (Joined (e # es)))"


text \<open>A run-time panic aborts the call; it is the \<open>Inl\<close> of a result.\<close>

datatype panic = Panic string

text \<open>
  What a cell writes through its \<open>*slog.Logger\<close>: the level and the message of each record
  (the attributes attached with \<open>With\<close> are not kept).
\<close>

datatype level = Debug | Info | Warn

type_synonym log_entry = "level \<times> string"

section \<open>Value cells (package mqtt, value.go)\<close>

type_synonym QualityOfService = "8 word"

definition QOSAtMostOnce :: QualityOfService where "QOSAtMostOnce = 0"
definition QOSAtLeastOnce :: QualityOfService where "QOSAtLeastOnce = 1"
definition QOSExactlyOnce :: QualityOfService where "QOSExactlyOnce = 2"

record WriteOptions =
  wo_QoS :: QualityOfService
  wo_Retain :: bool

text \<open>The zero value \<open>WriteOptions{}\<close>.\<close>

definition WriteOptions_zero :: WriteOptions where
  "WriteOptions_zero = \<lparr>wo_QoS = 0, wo_Retain = False\<rparr>"

type_synonym SubscriptionRetainHandling = "8 word"

record ReadOptions =
  ro_QoS :: QualityOfService
  ro_NoLocal :: bool
  ro_RetainAsPublished :: bool
  ro_RetainHandling :: SubscriptionRetainHandling

definition ReadOptions_zero :: ReadOptions where
  "ReadOptions_zero =
     \<lparr>ro_QoS = 0, ro_NoLocal = False, ro_RetainAsPublished = False, ro_RetainHandling = 0\<rparr>"

subsection \<open>The transport's write capability (interface \<open>Writer\<close>)\<close>

text \<open>
  \<open>Writer\<close> is an interface implemented outside this code. The model keeps every call of
  \<open>WriteTopic\<close> (topic, options, payload) in order, and lets the implementation answer
  each call by any function of the earlier calls and the call itself.
\<close>

type_synonym write_call = "string \<times> WriteOptions \<times> string"

record Writer =
  w_calls :: "write_call list"
  w_reply :: "write_call list \<Rightarrow> write_call \<Rightarrow> err option"

definition WriteTopic :: "string \<Rightarrow> WriteOptions \<Rightarrow> string \<Rightarrow> Writer \<Rightarrow> Writer \<times> err option" where
  "WriteTopic topic options val w =
     (w\<lparr>w_calls := w_calls w @ [(topic, options, val)]\<rparr>,
      w_reply w (w_calls w) (topic, options, val))"

subsection \<open>\<open>Value[T]\<close>: the outbound cell\<close>

text \<open>
  \<open>ValueMarshaler[T]\<close> is \<open>func(T) ([]byte, error)\<close>; its callers use the bytes only when the
  error is nil, so it is a function into \<open>err + string\<close>. A nil marshaler is \<open>None\<close>. The
  mutex is not modelled: every operation below runs alone.
\<close>

record 'a Value =
  v_topic :: string
  v_marshaler :: "('a \<Rightarrow> err + string) option"
  v_opts :: WriteOptions
  v_v :: 'a
  v_initialized :: bool

definition ErrNoMarshaler :: err where
  "ErrNoMarshaler = ErrorNew ''no marshaler configured''"

definition ErrNeverWritten :: err where
  "ErrNeverWritten = ErrorNew ''value was never written''"

text \<open>\<open>zero\<close> is the zero value of the type \<open>T\<close>, which the struct literal leaves in \<open>v\<close>.\<close>

definition NewValueWithOptions ::
  "'a \<Rightarrow> string \<Rightarrow> ('a \<Rightarrow> err + string) option \<Rightarrow> WriteOptions \<Rightarrow> 'a Value" where
  "NewValueWithOptions zero topic marshal opts =
     \<lparr>v_topic = topic, v_marshaler = marshal, v_opts = opts, v_v = zero, v_initialized = False\<rparr>"

definition NewValue :: "'a \<Rightarrow> string \<Rightarrow> ('a \<Rightarrow> err + string) option \<Rightarrow> 'a Value" where
  "NewValue zero topic marshal = NewValueWithOptions zero topic marshal WriteOptions_zero"

text \<open>A \<open>*Value[T]\<close> may be nil: \<open>None\<close>.\<close>

definition Value_FullyQualifiedTopic :: "'a Value option \<Rightarrow> string \<Rightarrow> string" where
  "Value_FullyQualifiedTopic v prefix =
     (case v of None \<Rightarrow> '''' | Some c \<Rightarrow> JoinTopic [prefix, v_topic c])"

definition Value_Get :: "'a Value \<Rightarrow> 'a \<times> bool" where
  "Value_Get v = (v_v v, v_initialized v)"

text \<open>
  \<open>Write\<close> returns \<open>(T, error)\<close> and both parts carry information on every path, so the
  result is a pair; the cell and the writer are returned updated.
\<close>

definition Value_Write ::
  "Writer \<Rightarrow> string \<Rightarrow> 'a \<Rightarrow> 'a Value \<Rightarrow> 'a Value \<times> Writer \<times> 'a \<times> err option" where
  "Value_Write w prefix newValue v =
     (case v_marshaler v of
        None \<Rightarrow> (v, w, newValue, Some ErrNoMarshaler)
      | Some marshal \<Rightarrow>
          (case marshal newValue of
             Inl e \<Rightarrow> (v, w, v_v v, Some (Errorf ''marshal'' e))
           | Inr data \<Rightarrow>
               (let v' = v\<lparr>v_v := newValue, v_initialized := True\<rparr>;
                    (w', r) = WriteTopic (JoinTopic [prefix, v_topic v']) (v_opts v') data w
                in (v', w', v_v v', r))))"

definition Value_Republish ::
  "Writer \<Rightarrow> string \<Rightarrow> 'a Value \<Rightarrow> 'a Value \<times> Writer \<times> 'a \<times> err option" where
  "Value_Republish w prefix v =
     (let currentValue = v_v v; initialized = v_initialized v
      in if \<not> initialized then (v, w, v_v v, Some ErrNeverWritten)
         else Value_Write w prefix currentValue v)"

text \<open>
  A history of \<open>Write\<close> calls on one cell, each with its prefix and value, against one
  writer.
\<close>

fun Value_Writes :: "(string \<times> 'a) list \<Rightarrow> 'a Value \<Rightarrow> Writer \<Rightarrow> 'a Value \<times> Writer" where
  "Value_Writes [] v w = (v, w)"
| "Value_Writes ((prefix, x) # rest) v w =
     (case Value_Write w prefix x v of (v', w', _) \<Rightarrow> Value_Writes rest v' w')"

text \<open>
  Whether \<open>Write\<close> of \<open>x\<close> gets past serialization on this cell, which is where the code
  stores the value: a marshaler is configured and it returns no error for \<open>x\<close>.
\<close>

definition serializes :: "'a Value \<Rightarrow> 'a \<Rightarrow> bool" where
  "serializes v x =
     (case v_marshaler v of None \<Rightarrow> False
      | Some marshal \<Rightarrow> (case marshal x of Inl _ \<Rightarrow> False | Inr _ \<Rightarrow> True))"

subsection \<open>\<open>RemoteValue[T]\<close>: the inbound cell\<close>

text \<open>
  \<open>ValueUnmarshaler[T]\<close> is \<open>func([]byte) (T, error)\<close>, a function into \<open>err + 'a\<close>. An
  observer is a \<open>func(T)\<close>: it acts on the rest of the program, the world \<open>'w\<close>. The slice
  \<open>watchers\<close> is a list and nil is the empty list. \<open>rv_log\<close> is what has been written
  through the cell's logger.
\<close>

record ('a, 'w) RemoteValue =
  rv_topic :: string
  rv_unmarshaler :: "(string \<Rightarrow> err + 'a) option"
  rv_opts :: ReadOptions
  rv_watchers :: "('a \<Rightarrow> 'w \<Rightarrow> 'w) list"
  rv_v :: 'a
  rv_initialized :: bool
  rv_log :: "log_entry list"

definition NewRemoteValueWithOptions ::
  "'a \<Rightarrow> string \<Rightarrow> (string \<Rightarrow> err + 'a) option \<Rightarrow> ReadOptions \<Rightarrow> ('a, 'w) RemoteValue" where
  "NewRemoteValueWithOptions zero topic unmarshaler opts =
     \<lparr>rv_topic = topic, rv_unmarshaler = unmarshaler, rv_opts = opts, rv_watchers = [],
      rv_v = zero, rv_initialized = False, rv_log = []\<rparr>"

definition NewRemoteValue ::
  "'a \<Rightarrow> string \<Rightarrow> (string \<Rightarrow> err + 'a) option \<Rightarrow> ('a, 'w) RemoteValue" where
  "NewRemoteValue zero topic unmarshaler =
     NewRemoteValueWithOptions zero topic unmarshaler ReadOptions_zero"

text \<open>
  \<open>JsonValueUnmarshaler[T]()\<close> decodes with \<open>json.Unmarshal\<close> at the type \<open>T\<close>; that library
  function is the parameter \<open>json_Unmarshal\<close>.
\<close>

definition JsonValueUnmarshaler :: "(string \<Rightarrow> err + 'a) \<Rightarrow> string \<Rightarrow> err + 'a" where
  "JsonValueUnmarshaler json_Unmarshal bytes = json_Unmarshal bytes"

text \<open>
  \<open>ServeMQTT\<close> on a non-nil cell (the \<open>Writer\<close> argument is ignored by the source). The
  observers run in list order on the world, each with the stored value.
\<close>

definition RemoteValue_ServeMQTT ::
  "(string \<Rightarrow> err + 'a) \<Rightarrow> string \<Rightarrow> string \<Rightarrow> ('a, 'w) RemoteValue \<Rightarrow> 'w
     \<Rightarrow> ('a, 'w) RemoteValue \<times> 'w" where
  "RemoteValue_ServeMQTT json_Unmarshal topic payload v world =
     (if rv_topic v \<noteq> topic then (v, world)
      else
        (let unmarshaler =
               (case rv_unmarshaler v of
                  None \<Rightarrow> JsonValueUnmarshaler json_Unmarshal
                | Some u \<Rightarrow> u);
             v1 = v\<lparr>rv_unmarshaler := Some unmarshaler\<rparr>
         in case unmarshaler payload of
              Inl e \<Rightarrow>
                (v1\<lparr>rv_log := rv_log v1 @ [(Warn, ''Failed to unmarshal payload from mqtt'')]\<rparr>,
                 world)
            | Inr parsed \<Rightarrow>
                (let v2 = v1\<lparr>rv_log := rv_log v1 @
                                [(Debug, ''Received new value from mqtt''),
                                 (Debug, ''Updating watchers'')],
                              rv_v := parsed, rv_initialized := True\<rparr>
                 in (v2, fold (\<lambda>w. w (rv_v v2)) (rv_watchers v2) world))))"

text \<open>The method on a \<open>*RemoteValue[T]\<close> that may be nil.\<close>

definition RemoteValue_ServeMQTT_nilable ::
  "(string \<Rightarrow> err + 'a) \<Rightarrow> string \<Rightarrow> string \<Rightarrow> ('a, 'w) RemoteValue option \<Rightarrow> 'w
     \<Rightarrow> ('a, 'w) RemoteValue option \<times> 'w" where
  "RemoteValue_ServeMQTT_nilable json_Unmarshal topic payload p world =
     (case p of
        None \<Rightarrow> (None, world)
      | Some v \<Rightarrow>
          (case RemoteValue_ServeMQTT json_Unmarshal topic payload v world of
             (v', world') \<Rightarrow> (Some v', world')))"

definition RemoteValue_FullyQualifiedTopic :: "('a, 'w) RemoteValue option \<Rightarrow> string \<Rightarrow> string" where
  "RemoteValue_FullyQualifiedTopic v prefix =
     (case v of None \<Rightarrow> '''' | Some c \<Rightarrow> JoinTopic [prefix, rv_topic c])"

definition RemoteValue_Get :: "('a, 'w) RemoteValue \<Rightarrow> 'a \<times> bool" where
  "RemoteValue_Get v = (rv_v v, rv_initialized v)"

definition RemoteValue_Watch ::
  "('a \<Rightarrow> 'w \<Rightarrow> 'w) \<Rightarrow> ('a, 'w) RemoteValue \<Rightarrow> ('a, 'w) RemoteValue \<times> int" where
  "RemoteValue_Watch callback v =
     (let v' = v\<lparr>rv_log := rv_log v @ [(Debug, ''Adding watcher'')],
                 rv_watchers := rv_watchers v @ [callback]\<rparr>
      in (v', int (length (rv_watchers v')) - 1))"

text \<open>
  \<open>Unwatch\<close>. The guard rejects \<open>id < 1\<close> and \<open>id > len(v.watchers)\<close>. Past the guard,
  \<open>v.watchers[:id]\<close> is in range and \<open>v.watchers[id+1:]\<close> is in range only when
  \<open>id + 1 \<le> len(v.watchers)\<close>; otherwise the slice expression panics. In range, the append
  yields the list without the element at index \<open>id\<close>. (The parameter \<open>id\<close> is \<open>wid\<close>
  here.)
\<close>

definition RemoteValue_Unwatch ::
  "int \<Rightarrow> ('a, 'w) RemoteValue \<Rightarrow> panic + ('a, 'w) RemoteValue" where
  "RemoteValue_Unwatch wid v =
     (if rv_watchers v = [] \<or> wid < 1 \<or> wid > int (length (rv_watchers v))
      then Inr (v\<lparr>rv_log := rv_log v @ [(Warn, ''Tried to remove an invalid watcher'')]\<rparr>)
      else
        (let v1 = v\<lparr>rv_log := rv_log v @ [(Debug, ''Removing watcher'')]\<rparr>
         in if wid + 1 > int (length (rv_watchers v1))
            then Inl (Panic ''slice bounds out of range'')
            else Inr (v1\<lparr>rv_watchers :=
                        take (nat wid) (rv_watchers v1) @ drop (nat (wid + 1)) (rv_watchers v1)\<rparr>)))"

definition DesiredValue :: "'a \<Rightarrow> 'a \<Rightarrow> bool" where
  "DesiredValue v vv = (v = vv)"

subsection \<open>\<open>Await\<close>\<close>

text \<open>
  \<open>Await\<close> blocks in a \<open>select\<close> while other goroutines deliver messages to the cell. The
  model runs it sequentially: \<open>deliveries\<close> are the messages (topic, payload) that arrive
  while \<open>Await\<close> is blocked, handled one after the other by \<open>ServeMQTT\<close> until the channel
  \<open>done\<close> of this call is closed; when they run out with \<open>done\<close> still open, the context
  is cancelled with \<open>cause\<close>.

  Every call of \<open>Await\<close> has variables of its own, \<open>got\<close> and \<open>done\<close>, which its closure
  captures: a frame (\<open>af_got\<close>, and \<open>af_done\<close> for the channel being closed). The frames
  of all calls live in a heap, addressed by the number of the call; \<open>ah_next\<close> is the
  address the next call gets. A closure that an earlier call left registered still writes
  that call's frame. \<open>close(done)\<close> on a channel that is closed already panics: \<open>ah_panic\<close>
  holds the panic, and no closure does anything after it. \<open>ah_log\<close> holds the Debug
  records the closures write through the cell's logger. The heap is the first half of the
  world the observers act on; the caller's own world \<open>'u\<close> is the second.
\<close>

record 'a await_frame =
  af_got :: 'a
  af_done :: bool

record 'a await_heap =
  ah_frames :: "nat \<Rightarrow> 'a await_frame"
  ah_next :: nat
  ah_panic :: "panic option"
  ah_log :: "log_entry list"

text \<open>
  The closure passed to \<open>Watch\<close> by the call whose frame is at address \<open>i\<close>: when the
  value is the desired one it logs, assigns \<open>got\<close> and closes \<open>done\<close>.
\<close>

definition Await_callback ::
  "nat \<Rightarrow> ('a \<Rightarrow> bool) \<Rightarrow> 'a \<Rightarrow> 'a await_heap \<times> 'u \<Rightarrow> 'a await_heap \<times> 'u" where
  "Await_callback i desired t world =
     (case ah_panic (fst world) of
        Some p \<Rightarrow> world
      | None \<Rightarrow>
          if desired t then
            (let h = (fst world)\<lparr>ah_log := ah_log (fst world) @ [(Debug, ''Received expected value'')]\<rparr>;
                 frame = ah_frames h i
             in if af_done frame
                then (h\<lparr>ah_frames := (ah_frames h)(i := frame\<lparr>af_got := t\<rparr>),
                        ah_panic := Some (Panic ''close of closed channel'')\<rparr>, snd world)
                else (h\<lparr>ah_frames := (ah_frames h)(i := \<lparr>af_got = t, af_done = True\<rparr>)\<rparr>,
                      snd world))
          else world)"

text \<open>
  The \<open>select\<close> of the call with frame \<open>i\<close>: it returns as soon as \<open>done\<close> is closed; a
  panic in a delivery ends the program, and with it the wait.
\<close>

fun Await_select ::
  "(string \<Rightarrow> err + 'a) \<Rightarrow> nat \<Rightarrow> (string \<times> string) list
     \<Rightarrow> ('a, 'a await_heap \<times> 'u) RemoteValue \<Rightarrow> 'a await_heap \<times> 'u
     \<Rightarrow> ('a, 'a await_heap \<times> 'u) RemoteValue \<times> 'a await_heap \<times> 'u" where
  "Await_select json_Unmarshal i [] v world = (v, world)"
| "Await_select json_Unmarshal i ((topic, payload) # rest) v world =
     (if af_done (ah_frames (fst world) i) then (v, world)
      else
        (case ah_panic (fst world) of
           Some p \<Rightarrow> (v, world)
         | None \<Rightarrow>
             (case RemoteValue_ServeMQTT json_Unmarshal topic payload v world of
                (v', world') \<Rightarrow> Await_select json_Unmarshal i rest v' world')))"

text \<open>
  \<open>Await\<close>: \<open>zero\<close> is the zero value of \<open>var got T\<close>. The deferred \<open>Unwatch(id)\<close> runs on
  both exits of the \<open>select\<close>; the result is the cell, the world, and the pair
  \<open>(got, error)\<close>, or the panic that ended the program.
\<close>

definition RemoteValue_Await ::
  "(string \<Rightarrow> err + 'a) \<Rightarrow> 'a \<Rightarrow> ('a \<Rightarrow> bool) \<Rightarrow> (string \<times> string) list \<Rightarrow> err
     \<Rightarrow> ('a, 'a await_heap \<times> 'u) RemoteValue \<Rightarrow> 'a await_heap \<times> 'u
     \<Rightarrow> panic + (('a, 'a await_heap \<times> 'u) RemoteValue \<times> ('a await_heap \<times> 'u) \<times> 'a \<times> err option)" where
  "RemoteValue_Await json_Unmarshal zero desired deliveries cause v world =
     (let i = ah_next (fst world);
          world0 = ((fst world)\<lparr>ah_frames := (ah_frames (fst world))
                                    (i := \<lparr>af_got = zero, af_done = False\<rparr>),
                                 ah_next := i + 1\<rparr>, snd world);
          v0 = v\<lparr>rv_log := rv_log v @ [(Debug, ''Awaiting value'')]\<rparr>;
          (v1, wid) = RemoteValue_Watch (Await_callback i desired) v0;
          (v2, world2) = Await_select json_Unmarshal i deliveries v1 world0
      in case ah_panic (fst world2) of
           Some p \<Rightarrow> Inl p
         | None \<Rightarrow>
             (let frame = ah_frames (fst world2) i;
                  v3 = (if af_done frame then v2
                        else v2\<lparr>rv_log := rv_log v2 @ [(Debug, ''Timeout waiting for value'')]\<rparr>);
                  result = (if af_done frame then (af_got frame, None)
                            else (af_got frame, Some cause))
              in case RemoteValue_Unwatch wid v3 of
                   Inl p \<Rightarrow> Inl p
                 | Inr v4 \<Rightarrow> Inr (v4, world2, result)))"

text \<open>The heap before any call of \<open>Await\<close>.\<close>

definition no_awaits :: "'a \<Rightarrow> 'a await_heap" where
  "no_awaits zero =
     \<lparr>ah_frames = (\<lambda>i. \<lparr>af_got = zero, af_done = False\<rparr>), ah_next = 0, ah_panic = None,
      ah_log = []\<rparr>"

text \<open>
  A run of deliveries to one cell, in order: what the transport's dispatch does with the
  messages of a subscription.
\<close>

fun RemoteValue_deliveries ::
  "(string \<Rightarrow> err + 'a) \<Rightarrow> (string \<times> string) list \<Rightarrow> ('a, 'w) RemoteValue \<Rightarrow> 'w
     \<Rightarrow> ('a, 'w) RemoteValue \<times> 'w" where
  "RemoteValue_deliveries json_Unmarshal [] v world = (v, world)"
| "RemoteValue_deliveries json_Unmarshal ((topic, payload) # rest) v world =
     (case RemoteValue_ServeMQTT json_Unmarshal topic payload v world of
        (v', world') \<Rightarrow> RemoteValue_deliveries json_Unmarshal rest v' world')"

subsection \<open>Subscriptions (package mqtt, subscriber.go)\<close>

record Subscription =
  sub_Topic :: string
  sub_Options :: ReadOptions

definition RemoteValue_AppendSubscribeOptions ::
  "Subscription list \<Rightarrow> ('a, 'w) RemoteValue option \<Rightarrow> string \<Rightarrow> Subscription list" where
  "RemoteValue_AppendSubscribeOptions existing v prefix =
     (case v of
        None \<Rightarrow> existing
      | Some c \<Rightarrow>
          if rv_topic c = '''' then existing
          else existing @
                 [\<lparr>sub_Topic = RemoteValue_FullyQualifiedTopic v prefix, sub_Options = rv_opts c\<rparr>])"

text \<open>
  \<open>Subscriber\<close> is the transport's other interface. As for \<open>Writer\<close>, the model keeps the
  calls made and lets the implementation answer by any function of the earlier calls and
  the call. The handler a \<open>Subscribe\<close> call passes is a closure over the component and is
  not part of the recorded call.
\<close>

datatype subscriber_call = SubscribeCall "Subscription list" | UnsubscribeCall "string list"

record Subscriber =
  s_calls :: "subscriber_call list"
  s_reply :: "subscriber_call list \<Rightarrow> subscriber_call \<Rightarrow> err option"

definition Subscriber_Subscribe :: "Subscription list \<Rightarrow> Subscriber \<Rightarrow> Subscriber \<times> err option" where
  "Subscriber_Subscribe subscriptions s =
     (s\<lparr>s_calls := s_calls s @ [SubscribeCall subscriptions]\<rparr>,
      s_reply s (s_calls s) (SubscribeCall subscriptions))"

definition Subscriber_Unsubscribe :: "string list \<Rightarrow> Subscriber \<Rightarrow> Subscriber \<times> err option" where
  "Subscriber_Unsubscribe topics s =
     (s\<lparr>s_calls := s_calls s @ [UnsubscribeCall topics]\<rparr>,
      s_reply s (s_calls s) (UnsubscribeCall topics))"

section \<open>Discovery documents (package discovery)\<close>

subsection \<open>The data a document is built from (device.go, origin.go)\<close>

text \<open>A \<open>*url.URL\<close> is kept as its string form; nil is \<open>None\<close>.\<close>

record Origin =
  o_Name :: string
  o_SoftwareVersion :: string
  o_SupportURL :: "string option"

definition DefaultOrigin :: Origin where
  "DefaultOrigin =
     \<lparr>o_Name = ''hqtt'', o_SoftwareVersion = ''master'',
      o_SupportURL = Some ''https://github.com/nlowe/hqtt''\<rparr>"

record DeviceConnection =
  dc_Kind :: string
  dc_Value :: string

record Device =
  d_DiscoveryID :: string
  d_Name :: string
  d_Serial :: string
  d_Manufacturer :: string
  d_Model :: string
  d_ModelID :: string
  d_ConfigurationURL :: "string option"
  d_Connections :: "DeviceConnection list"
  d_HardwareVersion :: string
  d_FirmwareVersion :: string
  d_Identifiers :: "string list"
  d_SuggestedArea :: string
  d_Origin :: "Origin option"
  d_ViaDevice :: string

subsection \<open>The JSON encoder (packages jsontext and json of the standard library)\<close>

text \<open>
  The encoder is a library object. What the code does with it is: write a token
  (\<open>WriteToken\<close>), and hand it a whole Go value (\<open>json.MarshalEncode\<close>). \<open>go_value\<close> lists
  the Go values this code hands over; how the library renders them is the library's
  business. \<open>uint\<close> is 64 bits wide; a \<open>time.Duration\<close> is its count of nanoseconds.
\<close>

datatype token = BeginObject | EndObject | BeginArray | EndArray | Null | String string

datatype go_value =
    GoString string
  | GoBool bool
  | GoUint "64 word"
  | GoUint8 "8 word"
  | GoDuration int
  | GoURL string
  | GoSlice "go_value list"
  | GoDevice Device
  | GoOrigin Origin

text \<open>\<open>v == defaultT\<close> for the comparable types among them.\<close>

fun is_zero :: "go_value \<Rightarrow> bool" where
  "is_zero (GoString s) = (s = '''')"
| "is_zero (GoBool b) = (\<not> b)"
| "is_zero (GoUint n) = (n = 0)"
| "is_zero (GoUint8 n) = (n = 0)"
| "is_zero (GoDuration d) = (d = 0)"
| "is_zero (GoURL u) = False"
| "is_zero (GoSlice xs) = False"
| "is_zero (GoDevice d) = False"
| "is_zero (GoOrigin ogn) = False"

datatype written = Token token | Value go_value

text \<open>
  The encoder's state is what it has accepted so far. Whether it accepts the next write
  (the JSON grammar, duplicate names, invalid UTF-8, the underlying writer) is the
  library's decision: \<open>e_reject\<close> answers, from what was accepted before and the write, with
  the error or with \<open>None\<close>. \<open>e_bytes\<close> is the library's rendering of what was accepted, the
  contents of the buffer the encoder writes to. Both are arbitrary in the results below.
\<close>

record Encoder =
  e_written :: "written list"
  e_reject :: "written list \<Rightarrow> written \<Rightarrow> err option"
  e_bytes :: "written list \<Rightarrow> string"

definition NewEncoder ::
  "(written list \<Rightarrow> written \<Rightarrow> err option) \<Rightarrow> (written list \<Rightarrow> string) \<Rightarrow> Encoder" where
  "NewEncoder reject bytes = \<lparr>e_written = [], e_reject = reject, e_bytes = bytes\<rparr>"

definition encoder_write :: "written \<Rightarrow> Encoder \<Rightarrow> Encoder \<times> err option" where
  "encoder_write x e =
     (case e_reject e (e_written e) x of
        None \<Rightarrow> (e\<lparr>e_written := e_written e @ [x]\<rparr>, None)
      | Some failure \<Rightarrow> (e, Some failure))"

definition WriteToken :: "token \<Rightarrow> Encoder \<Rightarrow> Encoder \<times> err option" where
  "WriteToken t e = encoder_write (Token t) e"

text \<open>\<open>json.MarshalEncode(e, v, json.WithMarshalers(Marshalers))\<close> for a plain Go value.\<close>

definition MarshalEncode :: "go_value \<Rightarrow> Encoder \<Rightarrow> Encoder \<times> err option" where
  "MarshalEncode v e = encoder_write (Value v) e"

text \<open>
  \<open>json.MarshalEncode\<close> for a value that implements \<open>json.MarshalerTo\<close>: the library calls
  the value's \<open>MarshalJSONTo\<close> on the same encoder and, when the method returns an error,
  returns it inside its own error value, which unwraps to it. (The library also reports
  an error of its own when a method returns nil without having written exactly one value;
  \<open>Component.MarshalJSONTo\<close> returns nil only when every token of its one object was
  accepted.) A value of the interface is its method.
\<close>

type_synonym MarshalerTo = "Encoder \<Rightarrow> Encoder \<times> err option"

definition MarshalEncode_MarshalerTo :: "MarshalerTo \<Rightarrow> Encoder \<Rightarrow> Encoder \<times> err option" where
  "MarshalEncode_MarshalerTo m e =
     (case m e of
        (e', None) \<Rightarrow> (e', None)
      | (e', Some failure) \<Rightarrow> (e', Some (SemanticError failure)))"

text \<open>
  \<open>errors.Join(a(e), b(e), ...)\<close>: Go evaluates the arguments from left to right, each on the
  encoder as the one before left it, whatever errors they return, and then joins the
  results.
\<close>

fun run_calls :: "(Encoder \<Rightarrow> Encoder \<times> err option) list \<Rightarrow> Encoder \<Rightarrow> Encoder \<times> err option list" where
  "run_calls [] e = (e, [])"
| "run_calls (f # fs) e =
     (case f e of (e1, r) \<Rightarrow> (case run_calls fs e1 of (e2, rs) \<Rightarrow> (e2, r # rs)))"

definition errors_Join_calls ::
  "(Encoder \<Rightarrow> Encoder \<times> err option) list \<Rightarrow> Encoder \<Rightarrow> Encoder \<times> err option" where
  "errors_Join_calls fs e = (case run_calls fs e of (e', rs) \<Rightarrow> (e', errors_Join rs))"

subsection \<open>Field names (fields.go and the per-platform constants)\<close>

definition FieldStateTopic :: string where "FieldStateTopic = ''stat_t''"
definition FieldCommandTopic :: string where "FieldCommandTopic = ''cmd_t''"
definition FieldDevice :: string where "FieldDevice = ''dev''"
definition FieldOrigin :: string where "FieldOrigin = ''o''"
definition FieldComponents :: string where "FieldComponents = ''cmps''"
definition FieldEntityCategory :: string where "FieldEntityCategory = ''ent_cat''"
definition FieldIcon :: string where "FieldIcon = ''ic''"
definition FieldPicture :: string where "FieldPicture = ''picture''"
definition FieldPlatform :: string where "FieldPlatform = ''p''"
definition FieldDefaultEntityID :: string where "FieldDefaultEntityID = ''def_ent_id''"
definition FieldUniqueID :: string where "FieldUniqueID = ''uniq_id''"
definition FieldPayloadOn :: string where "FieldPayloadOn = ''pl_on''"
definition FieldPayloadOff :: string where "FieldPayloadOff = ''pl_off''"
definition FieldOnCommandType :: string where "FieldOnCommandType = ''on_cmd_type''"
definition FieldOptimistic :: string where "FieldOptimistic = ''opt''"
definition IDSep :: string where "IDSep = ''__''"

definition FieldQualityOfService :: string where "FieldQualityOfService = ''qos''"
definition FieldRetain :: string where "FieldRetain = ''ret''"

definition FieldAvailabilityTopic :: string where "FieldAvailabilityTopic = ''avty_t''"
definition FieldPayloadAvailable :: string where "FieldPayloadAvailable = ''pl_avail''"
definition FieldPayloadNotAvailable :: string where "FieldPayloadNotAvailable = ''pl_not_avail''"

definition FieldColorModeStateTopic :: string where "FieldColorModeStateTopic = ''clrm_stat_t''"
definition FieldColorModeCommandTopic :: string where "FieldColorModeCommandTopic = ''clrm_cmd_t''"
definition FieldSupportedColorModes :: string where "FieldSupportedColorModes = ''sup_clrm''"
definition FieldBrightnessCommandTopic :: string where "FieldBrightnessCommandTopic = ''bri_cmd_t''"
definition FieldBrightnessStateTopic :: string where "FieldBrightnessStateTopic = ''bri_stat_t''"
definition FieldBrightnessScale :: string where "FieldBrightnessScale = ''bri_scl''"
definition FieldColorTemperatureCommandTopic :: string where
  "FieldColorTemperatureCommandTopic = ''clr_temp_cmd_t''"
definition FieldColorTemperatureStateTopic :: string where
  "FieldColorTemperatureStateTopic = ''clr_temp_stat_t''"
definition FieldColorTemperatureInKelvin :: string where
  "FieldColorTemperatureInKelvin = ''clr_temp_k''"
definition FieldMinKelvin :: string where "FieldMinKelvin = ''min_k''"
definition FieldMaxKelvin :: string where "FieldMaxKelvin = ''max_k''"
definition FieldMinMireds :: string where "FieldMinMireds = ''min_mirs''"
definition FieldMaxMireds :: string where "FieldMaxMireds = ''max_mirs''"
definition FieldHueSatCommandTopic :: string where "FieldHueSatCommandTopic = ''hs_cmd_t''"
definition FieldHueSatStateTopic :: string where "FieldHueSatStateTopic = ''hs_stat_t''"
definition FieldXYCommandTopic :: string where "FieldXYCommandTopic = ''xy_cmd_t''"
definition FieldXYStateTopic :: string where "FieldXYStateTopic = ''xy_stat_t''"
definition FieldRGBCommandTopic :: string where "FieldRGBCommandTopic = ''rgb_cmd_t''"
definition FieldRGBStateTopic :: string where "FieldRGBStateTopic = ''rgb_stat_t''"
definition FieldRGBWCommandTopic :: string where "FieldRGBWCommandTopic = ''rgbW_cmd_t''"
definition FieldRGBWStateTopic :: string where "FieldRGBWStateTopic = ''rgbW_stat_t''"
definition FieldRGBWWCommandTopic :: string where "FieldRGBWWCommandTopic = ''rgbWW_cmd_t''"
definition FieldRGBWWStateTopic :: string where "FieldRGBWWStateTopic = ''rgbWW_stat_t''"
definition FieldWhiteCommandTopic :: string where "FieldWhiteCommandTopic = ''whit_cmd_t''"
definition FieldWhiteScale :: string where "FieldWhiteScale = ''whit_scl''"
definition FieldEffectCommandTopic :: string where "FieldEffectCommandTopic = ''fx_cmd_t''"
definition FieldEffectStateTopic :: string where "FieldEffectStateTopic = ''fx_stat_t''"
definition FieldEffectList :: string where "FieldEffectList = ''fx_list''"

definition FieldExpireMeasurementsAfter :: string where "FieldExpireMeasurementsAfter = ''exp_after''"
definition FieldForceUpdate :: string where "FieldForceUpdate = ''frc_upd''"
definition FieldAttributesTopic :: string where "FieldAttributesTopic = ''json_attr_t''"
definition FieldOptions :: string where "FieldOptions = ''opts''"
definition FieldSuggestedDisplayPrecision :: string where
  "FieldSuggestedDisplayPrecision = ''sug_dsp_prc''"
definition FieldStateClass :: string where "FieldStateClass = ''stat_cla''"
definition FieldUnitOfMeasurement :: string where "FieldUnitOfMeasurement = ''unit_of_meas''"
definition FieldOffDelay :: string where "FieldOffDelay = ''off_dly''"

subsection \<open>The marshal helpers (marshal.go of package discovery)\<close>

text \<open>
  Each helper takes the encoder as its last argument and returns it with the error. The
  generic helpers take their value as a \<open>go_value\<close>; a \<open>*T\<close> is a \<open>go_value option\<close>.
\<close>

definition ErrValueRequired :: err where
  "ErrValueRequired = ErrorNew ''value is required''"

definition ErrTopicRequired :: err where
  "ErrTopicRequired = ErrorNew ''topic is required''"

definition ErrMissingStateOrCommandTopic :: err where
  "ErrMissingStateOrCommandTopic = ErrorNew ''state and command topics must both be configured''"

definition MaybeMarshalTopic :: "string \<Rightarrow> string \<Rightarrow> Encoder \<Rightarrow> Encoder \<times> err option" where
  "MaybeMarshalTopic k topic e =
     (if topic = '''' then (e, None)
      else errors_Join_calls [WriteToken (String k), WriteToken (String topic)] e)"

definition MarshalRequiredTopic ::
  "string \<Rightarrow> string \<Rightarrow> string \<Rightarrow> Encoder \<Rightarrow> Encoder \<times> err option" where
  "MarshalRequiredTopic name k topic e =
     (if topic = '''' then (e, Some (Errorf name ErrTopicRequired))
      else MaybeMarshalTopic k topic e)"

definition MarshalRequiredValueTopic ::
  "string \<Rightarrow> string \<Rightarrow> 'a Value option \<Rightarrow> string \<Rightarrow> Encoder \<Rightarrow> Encoder \<times> err option" where
  "MarshalRequiredValueTopic name k v prefix e =
     MarshalRequiredTopic name k (Value_FullyQualifiedTopic v prefix) e"

definition MarshalRequiredRemoteValueTopic ::
  "string \<Rightarrow> string \<Rightarrow> ('a, 'w) RemoteValue option \<Rightarrow> string \<Rightarrow> Encoder
     \<Rightarrow> Encoder \<times> err option" where
  "MarshalRequiredRemoteValueTopic name k v prefix e =
     MarshalRequiredTopic name k (RemoteValue_FullyQualifiedTopic v prefix) e"

definition MaybeMarshalValueTopic ::
  "string \<Rightarrow> 'a Value option \<Rightarrow> string \<Rightarrow> Encoder \<Rightarrow> Encoder \<times> err option" where
  "MaybeMarshalValueTopic k v prefix e = MaybeMarshalTopic k (Value_FullyQualifiedTopic v prefix) e"

definition MaybeMarshalRemoteValueTopic ::
  "string \<Rightarrow> ('a, 'w) RemoteValue option \<Rightarrow> string \<Rightarrow> Encoder \<Rightarrow> Encoder \<times> err option" where
  "MaybeMarshalRemoteValueTopic k v prefix e =
     MaybeMarshalTopic k (RemoteValue_FullyQualifiedTopic v prefix) e"

definition MaybeMarshalStateAndCommandTopics ::
  "string \<Rightarrow> string \<Rightarrow> 'a Value option \<Rightarrow> string \<Rightarrow> ('b, 'w) RemoteValue option \<Rightarrow> string
     \<Rightarrow> Encoder \<Rightarrow> Encoder \<times> err option" where
  "MaybeMarshalStateAndCommandTopics name sk s ck c prefix e =
     (if s = None \<and> c = None then (e, None)
      else if s = None \<or> c = None then (e, Some (Errorf name ErrMissingStateOrCommandTopic))
      else errors_Join_calls
             [MarshalRequiredValueTopic name sk s prefix,
              MarshalRequiredRemoteValueTopic name ck c prefix] e)"

definition MaybeMarshalStd :: "string \<Rightarrow> go_value option \<Rightarrow> Encoder \<Rightarrow> Encoder \<times> err option" where
  "MaybeMarshalStd k v e =
     (case v of
        None \<Rightarrow> (e, None)
      | Some x \<Rightarrow> errors_Join_calls [WriteToken (String k), MarshalEncode x] e)"

definition MarshalStd ::
  "string \<Rightarrow> string \<Rightarrow> go_value option \<Rightarrow> Encoder \<Rightarrow> Encoder \<times> err option" where
  "MarshalStd name k v e =
     (if v = None then (e, Some (Errorf name ErrValueRequired)) else MaybeMarshalStd k v e)"

definition MaybeMarshalStdSlice ::
  "string \<Rightarrow> go_value list \<Rightarrow> Encoder \<Rightarrow> Encoder \<times> err option" where
  "MaybeMarshalStdSlice k v e =
     (if length v = 0 then (e, None)
      else errors_Join_calls [WriteToken (String k), MarshalEncode (GoSlice v)] e)"

definition MarshalStdComparable ::
  "string \<Rightarrow> string \<Rightarrow> go_value \<Rightarrow> Encoder \<Rightarrow> Encoder \<times> err option" where
  "MarshalStdComparable name k v e =
     (if is_zero v then (e, Some (Errorf name ErrValueRequired))
      else MaybeMarshalStd k (Some v) e)"

definition MaybeMarshalStdComparable ::
  "string \<Rightarrow> go_value \<Rightarrow> Encoder \<Rightarrow> Encoder \<times> err option" where
  "MaybeMarshalStdComparable k v e =
     (if is_zero v then (e, None) else MaybeMarshalStd k (Some v) e)"

definition MarshalStdIfNot ::
  "go_value \<Rightarrow> string \<Rightarrow> go_value \<Rightarrow> Encoder \<Rightarrow> Encoder \<times> err option" where
  "MarshalStdIfNot not_v vk v e =
     (if v = not_v \<or> is_zero v then (e, None)
      else errors_Join_calls [WriteToken (String vk), MarshalEncode v] e)"

text \<open>
  \<open>MaybeInlineMarshalStd\<close> ranges over a Go map, whose iteration order is not fixed: the
  map is the list of its entries in the order the loop visits them, and the results hold
  for every order. \<open>enc\<close> is \<open>json.MarshalEncode\<close> at the type of the map's values.
\<close>

fun MaybeInlineMarshalStd_loop ::
  "('v \<Rightarrow> Encoder \<Rightarrow> Encoder \<times> err option) \<Rightarrow> (string \<times> 'v) list \<Rightarrow> err option \<Rightarrow> Encoder
     \<Rightarrow> Encoder \<times> err option" where
  "MaybeInlineMarshalStd_loop enc [] failure e = (e, failure)"
| "MaybeInlineMarshalStd_loop enc ((vk, vv) # rest) failure e =
     (case WriteToken (String vk) e of
        (e1, r1) \<Rightarrow>
          (case enc vv e1 of
             (e2, r2) \<Rightarrow>
               MaybeInlineMarshalStd_loop enc rest (errors_Join [failure, r1, r2]) e2))"

definition MaybeInlineMarshalStd ::
  "('v \<Rightarrow> Encoder \<Rightarrow> Encoder \<times> err option) \<Rightarrow> (string \<times> 'v) list \<Rightarrow> Encoder
     \<Rightarrow> Encoder \<times> err option" where
  "MaybeInlineMarshalStd enc v e =
     (if length v = 0 then (e, None) else MaybeInlineMarshalStd_loop enc v None e)"

section \<open>Platforms (package platform) and components (component.go)\<close>

subsection \<open>The interface \<open>Platform\<close>\<close>

text \<open>
  A platform type \<open>'p\<close> implements the interface by its methods. (\<open>ServeMQTT\<close>, the fourth
  method, is only called by the handler a subscription installs and is not needed below.)
\<close>

record 'p Platform =
  PlatformName :: "'p \<Rightarrow> string"
  Subscriptions :: "'p \<Rightarrow> string \<Rightarrow> Subscription list"
  MarshalDiscoveryTo :: "'p \<Rightarrow> string \<Rightarrow> Encoder \<Rightarrow> Encoder \<times> err option"

subsection \<open>\<open>Light\<close> (light.go)\<close>

text \<open>
  The value types of the light's cells. A \<open>float64\<close> is kept as its 64 bits; no arithmetic
  on it is modelled. \<open>hass.PowerState\<close>, \<open>hass.ColorMode\<close> and \<open>LightOnCommandType\<close> are
  string types.
\<close>

type_synonym float64 = "64 word"
type_synonym uint = "64 word"

record HueSat =
  hs_Hue :: float64
  hs_Saturation :: float64

record RGB =
  rgb_R :: "8 word"
  rgb_G :: "8 word"
  rgb_B :: "8 word"

record RGBW = RGB +
  rgb_W :: "8 word"

record RGBWW = RGBW +
  rgb_WW :: "8 word"

record XY =
  xy_X :: float64
  xy_Y :: float64

definition LightOnCommandTypeLast :: string where "LightOnCommandTypeLast = ''last''"
definition DefaultLightOnCommandType :: string where
  "DefaultLightOnCommandType = LightOnCommandTypeLast"
definition LightOnCommandTypeFirst :: string where "LightOnCommandTypeFirst = ''first''"
definition LightOnCommandTypeBrightness :: string where
  "LightOnCommandTypeBrightness = ''brightness''"

record CustomPowerState =
  cps_On :: string
  cps_Off :: string

record 'w Light =
  l_OnCommandType :: string
  l_Optimistic :: bool
  l_State :: "string Value option"
  l_Command :: "(string, 'w) RemoteValue option"
  l_CustomPowerStateValues :: CustomPowerState
  l_ColorMode :: "string Value option"
  l_ColorModeCommand :: "(string, 'w) RemoteValue option"
  l_SupportedColorModes :: "string list"
  l_Brightness :: "uint Value option"
  l_BrightnessCommand :: "(uint, 'w) RemoteValue option"
  l_BrightnessScale :: uint
  l_ColorTemperature :: "uint Value option"
  l_ColorTemperatureCommand :: "(uint, 'w) RemoteValue option"
  l_ColorTemperatureInKelvin :: bool
  l_MaxKelvin :: uint
  l_MinKelvin :: uint
  l_MaxMireds :: uint
  l_MinMireds :: uint
  l_HueSat :: "HueSat Value option"
  l_HueSatCommand :: "(HueSat, 'w) RemoteValue option"
  l_XY :: "XY Value option"
  l_XYCommand :: "(XY, 'w) RemoteValue option"
  l_RGB :: "RGB Value option"
  l_RGBCommand :: "(RGB, 'w) RemoteValue option"
  l_RGBW :: "RGBW Value option"
  l_RGBWCommand :: "(RGBW, 'w) RemoteValue option"
  l_RGBWW :: "RGBWW Value option"
  l_RGBWWCommand :: "(RGBWW, 'w) RemoteValue option"
  l_WhiteBrightnessCommand :: "(uint, 'w) RemoteValue option"
  l_WhiteScale :: uint
  l_Effect :: "string Value option"
  l_EffectCommand :: "(string, 'w) RemoteValue option"
  l_PossibleEffects :: "string list"

definition Light_PlatformName :: "'w Light \<Rightarrow> string" where
  "Light_PlatformName l = ''light''"

definition Light_Subscriptions :: "'w Light \<Rightarrow> string \<Rightarrow> Subscription list" where
  "Light_Subscriptions l prefix =
     (let result = [];
          result = RemoteValue_AppendSubscribeOptions result (l_Command l) prefix;
          result = RemoteValue_AppendSubscribeOptions result (l_ColorModeCommand l) prefix;
          result = RemoteValue_AppendSubscribeOptions result (l_BrightnessCommand l) prefix;
          result = RemoteValue_AppendSubscribeOptions result (l_ColorTemperatureCommand l) prefix;
          result = RemoteValue_AppendSubscribeOptions result (l_HueSatCommand l) prefix;
          result = RemoteValue_AppendSubscribeOptions result (l_XYCommand l) prefix;
          result = RemoteValue_AppendSubscribeOptions result (l_RGBCommand l) prefix;
          result = RemoteValue_AppendSubscribeOptions result (l_RGBWCommand l) prefix;
          result = RemoteValue_AppendSubscribeOptions result (l_RGBWWCommand l) prefix;
          result = RemoteValue_AppendSubscribeOptions result (l_WhiteBrightnessCommand l) prefix;
          result = RemoteValue_AppendSubscribeOptions result (l_EffectCommand l) prefix
      in result)"

text \<open>
  \<open>Light.MarshalDiscoveryTo\<close>, argument by argument as the source has them: the pair
  named "hue sat" is given the colour temperature cells, and the pair named "xy" is given
  the state cell under \<open>FieldXYCommandTopic\<close> and the command cell under
  \<open>FieldXYStateTopic\<close>.
\<close>

definition Light_MarshalDiscoveryTo ::
  "'w Light \<Rightarrow> string \<Rightarrow> Encoder \<Rightarrow> Encoder \<times> err option" where
  "Light_MarshalDiscoveryTo l prefix e =
     errors_Join_calls
       [MarshalStdIfNot (GoString DefaultLightOnCommandType) FieldOnCommandType
          (GoString (l_OnCommandType l)),
        MaybeMarshalStdComparable FieldOptimistic (GoBool (l_Optimistic l)),
        MaybeMarshalValueTopic FieldStateTopic (l_State l) prefix,
        MarshalRequiredRemoteValueTopic ''command'' FieldCommandTopic (l_Command l) prefix,
        MaybeMarshalStdComparable FieldPayloadOn (GoString (cps_On (l_CustomPowerStateValues l))),
        MaybeMarshalStdComparable FieldPayloadOff (GoString (cps_Off (l_CustomPowerStateValues l))),
        MaybeMarshalStateAndCommandTopics ''color mode''
          FieldColorModeStateTopic (l_ColorMode l)
          FieldColorModeCommandTopic (l_ColorModeCommand l) prefix,
        MaybeMarshalStd FieldSupportedColorModes
          (Some (GoSlice (map GoString (l_SupportedColorModes l)))),
        MaybeMarshalStateAndCommandTopics ''brightness''
          FieldBrightnessStateTopic (l_Brightness l)
          FieldBrightnessCommandTopic (l_BrightnessCommand l) prefix,
        MaybeMarshalStdComparable FieldBrightnessScale (GoUint (l_BrightnessScale l)),
        MaybeMarshalStateAndCommandTopics ''color temperature''
          FieldColorTemperatureStateTopic (l_ColorTemperature l)
          FieldColorTemperatureCommandTopic (l_ColorTemperatureCommand l) prefix,
        MaybeMarshalStdComparable FieldColorTemperatureInKelvin
          (GoBool (l_ColorTemperatureInKelvin l)),
        MaybeMarshalStdComparable FieldMaxKelvin (GoUint (l_MaxKelvin l)),
        MaybeMarshalStdComparable FieldMinKelvin (GoUint (l_MinKelvin l)),
        MaybeMarshalStdComparable FieldMaxMireds (GoUint (l_MaxMireds l)),
        MaybeMarshalStdComparable FieldMinMireds (GoUint (l_MinMireds l)),
        MaybeMarshalStateAndCommandTopics ''hue sat''
          FieldHueSatStateTopic (l_ColorTemperature l)
          FieldHueSatCommandTopic (l_ColorTemperatureCommand l) prefix,
        MaybeMarshalStateAndCommandTopics ''xy''
          FieldXYCommandTopic (l_XY l)
          FieldXYStateTopic (l_XYCommand l) prefix,
        MaybeMarshalStateAndCommandTopics ''rgb''
          FieldRGBStateTopic (l_RGB l)
          FieldRGBCommandTopic (l_RGBCommand l) prefix,
        MaybeMarshalStateAndCommandTopics ''rgbw''
          FieldRGBWStateTopic (l_RGBW l)
          FieldRGBWCommandTopic (l_RGBWCommand l) prefix,
        MaybeMarshalStateAndCommandTopics ''rgbww''
          FieldRGBWWStateTopic (l_RGBWW l)
          FieldRGBWWCommandTopic (l_RGBWWCommand l) prefix,
        MaybeMarshalRemoteValueTopic FieldWhiteCommandTopic (l_WhiteBrightnessCommand l) prefix,
        MaybeMarshalStdComparable FieldWhiteScale (GoUint (l_WhiteScale l)),
        MaybeMarshalStateAndCommandTopics ''effect''
          FieldEffectStateTopic (l_Effect l)
          FieldEffectCommandTopic (l_EffectCommand l) prefix,
        MaybeMarshalStdSlice FieldEffectList (map GoString (l_PossibleEffects l))] e"

definition Light_Platform :: "'w Light Platform" where
  "Light_Platform =
     \<lparr>PlatformName = Light_PlatformName, Subscriptions = Light_Subscriptions,
      MarshalDiscoveryTo = Light_MarshalDiscoveryTo\<rparr>"

subsection \<open>\<open>Sensor\<close> and \<open>BinarySensor\<close> (sensor.go, binary_sensor.go)\<close>

text \<open>
  \<open>Sensor[TValue, TAttributes]\<close>. \<open>to_go\<close>, a parameter of its marshalling, is how a
  \<open>TValue\<close> is handed to the encoder.
\<close>

record ('v, 'at) Sensor =
  s_ExpireMeasurementsAfter :: int
  s_ForceUpdate :: bool
  s_Attributes :: "'at Value option"
  s_EnumOptions :: "'v list"
  s_SuggestedDisplayPrecision :: uint
  s_StateClass :: string
  s_State :: "'v Value option"
  s_UnitOfMeasurement :: string

definition Sensor_PlatformName :: "('v, 'at, 'z) Sensor_scheme \<Rightarrow> string" where
  "Sensor_PlatformName s = ''sensor''"

definition Sensor_Subscriptions :: "('v, 'at, 'z) Sensor_scheme \<Rightarrow> string \<Rightarrow> Subscription list" where
  "Sensor_Subscriptions s prefix = []"

definition Sensor_MarshalDiscoveryTo ::
  "('v \<Rightarrow> go_value) \<Rightarrow> ('v, 'at, 'z) Sensor_scheme \<Rightarrow> string \<Rightarrow> Encoder \<Rightarrow> Encoder \<times> err option" where
  "Sensor_MarshalDiscoveryTo to_go s prefix e =
     errors_Join_calls
       [MaybeMarshalStdComparable FieldExpireMeasurementsAfter
          (GoDuration (s_ExpireMeasurementsAfter s)),
        MaybeMarshalStdComparable FieldForceUpdate (GoBool (s_ForceUpdate s)),
        MaybeMarshalValueTopic FieldAttributesTopic (s_Attributes s) prefix,
        MaybeMarshalStdSlice FieldOptions (map to_go (s_EnumOptions s)),
        MaybeMarshalStdComparable FieldSuggestedDisplayPrecision
          (GoUint (s_SuggestedDisplayPrecision s)),
        MaybeMarshalStdComparable FieldStateClass (GoString (s_StateClass s)),
        MarshalRequiredValueTopic ''state'' FieldStateTopic (s_State s) prefix,
        MaybeMarshalStdComparable FieldUnitOfMeasurement (GoString (s_UnitOfMeasurement s))] e"

definition Sensor_Platform :: "('v \<Rightarrow> go_value) \<Rightarrow> ('v, 'at) Sensor Platform" where
  "Sensor_Platform to_go =
     \<lparr>PlatformName = Sensor_PlatformName, Subscriptions = Sensor_Subscriptions,
      MarshalDiscoveryTo = Sensor_MarshalDiscoveryTo to_go\<rparr>"

text \<open>\<open>BinarySensor\<close> embeds \<open>Sensor[hass.PowerState, TAttributes]\<close>.\<close>

record 'at BinarySensor = "(string, 'at) Sensor" +
  bs_OffDelay :: int

definition BinarySensor_PlatformName :: "'at BinarySensor \<Rightarrow> string" where
  "BinarySensor_PlatformName s = ''binary_sensor''"

definition BinarySensor_Subscriptions :: "'at BinarySensor \<Rightarrow> string \<Rightarrow> Subscription list" where
  "BinarySensor_Subscriptions s prefix = Sensor_Subscriptions s prefix"

definition BinarySensor_MarshalDiscoveryTo ::
  "'at BinarySensor \<Rightarrow> string \<Rightarrow> Encoder \<Rightarrow> Encoder \<times> err option" where
  "BinarySensor_MarshalDiscoveryTo s prefix e =
     errors_Join_calls
       [Sensor_MarshalDiscoveryTo GoString s prefix,
        MaybeMarshalStdComparable FieldOffDelay (GoDuration (bs_OffDelay s))] e"

definition BinarySensor_Platform :: "'at BinarySensor Platform" where
  "BinarySensor_Platform =
     \<lparr>PlatformName = BinarySensor_PlatformName, Subscriptions = BinarySensor_Subscriptions,
      MarshalDiscoveryTo = BinarySensor_MarshalDiscoveryTo\<rparr>"

subsection \<open>\<open>Component\<close>\<close>

record CustomAvailability =
  ca_Available :: string
  ca_Unavailable :: string

record 'p Component =
  c_Platform :: 'p
  c_TopicPrefix :: string
  c_Name :: string
  c_EntityCategory :: string
  c_Icon :: string
  c_Picture :: "string option"
  c_Availability :: "string Value option"
  c_CustomAvailabilityValues :: CustomAvailability
  c_DefaultEntityID :: string
  c_UniqueID :: string
  c_WriteOptions :: WriteOptions
  c_subscribedTopics :: "string list"

definition ErrComponentAlreadySubscribed :: err where
  "ErrComponentAlreadySubscribed = ErrorNew ''component already subscribed''"

text \<open>
  \<open>Subscribe\<close> and \<open>Unsubscribe\<close>: \<open>P\<close> is the component's platform type with its methods.
  The result is the component, the subscriber, and the error returned.
\<close>

definition Component_Subscribe ::
  "'p Platform \<Rightarrow> Subscriber \<Rightarrow> 'p Component \<Rightarrow> 'p Component \<times> Subscriber \<times> err option" where
  "Component_Subscribe P s c =
     (if length (c_subscribedTopics c) \<noteq> 0 then (c, s, Some ErrComponentAlreadySubscribed)
      else
        (let subscriptions = Subscriptions P (c_Platform c) (c_TopicPrefix c);
             c' = c\<lparr>c_subscribedTopics := map sub_Topic subscriptions\<rparr>;
             (s', r) = Subscriber_Subscribe (Subscriptions P (c_Platform c') (c_TopicPrefix c')) s
         in (c', s', r)))"

definition Component_Unsubscribe ::
  "Subscriber \<Rightarrow> 'p Component \<Rightarrow> 'p Component \<times> Subscriber \<times> err option" where
  "Component_Unsubscribe s c =
     (if length (c_subscribedTopics c) = 0 then (c, s, None)
      else
        (let topics = c_subscribedTopics c;
             c' = c\<lparr>c_subscribedTopics := []\<rparr>;
             (s', r) = Subscriber_Unsubscribe topics s
         in (c', s', r)))"

definition Component_MarshalJSONTo :: "'p Platform \<Rightarrow> 'p Component \<Rightarrow> MarshalerTo" where
  "Component_MarshalJSONTo P c e =
     (let nameToken = (if c_Name c \<noteq> '''' then String (c_Name c) else Null)
      in errors_Join_calls
           [WriteToken BeginObject,
            MarshalStdComparable ''platform'' FieldPlatform
              (GoString (PlatformName P (c_Platform c))),
            WriteToken (String ''name''),
            WriteToken nameToken,
            MaybeMarshalStdComparable FieldEntityCategory (GoString (c_EntityCategory c)),
            MaybeMarshalStdComparable FieldIcon (GoString (c_Icon c)),
            MaybeMarshalStd FieldPicture (map_option GoURL (c_Picture c)),
            MarshalRequiredValueTopic ''availability'' FieldAvailabilityTopic
              (c_Availability c) (c_TopicPrefix c),
            MaybeMarshalStdComparable FieldPayloadAvailable
              (GoString (ca_Available (c_CustomAvailabilityValues c))),
            MaybeMarshalStdComparable FieldPayloadNotAvailable
              (GoString (ca_Unavailable (c_CustomAvailabilityValues c))),
            MaybeMarshalStdComparable FieldDefaultEntityID (GoString (c_DefaultEntityID c)),
            MaybeMarshalStdComparable FieldUniqueID (GoString (c_UniqueID c)),
            MaybeMarshalStdComparable FieldQualityOfService
              (GoUint8 (wo_QoS (c_WriteOptions c))),
            MaybeMarshalStdComparable FieldRetain (GoBool (wo_Retain (c_WriteOptions c))),
            MarshalDiscoveryTo P (c_Platform c) (c_TopicPrefix c),
            WriteToken EndObject] e)"

subsection \<open>\<open>Device\<close> (device.go)\<close>

text \<open>The message of \<open>ErrInvalidDevice\<close>, without the quotation marks it has in the source.\<close>

definition ErrInvalidDevice :: err where
  "ErrInvalidDevice =
     ErrorNew ''device must have at least one identifying value in identifiers and/or connections''"

text \<open>
  \<open>discovery.IDSanitizer\<close> replaces each of the six one-byte strings by \<open>IDSep\<close>.
\<close>

definition IDSanitizer_Replace :: "string \<Rightarrow> string" where
  "IDSanitizer_Replace s = concat (map (\<lambda>c. if c \<in> set '' :.!?/'' then IDSep else [c]) s)"

definition writeSep :: "string \<Rightarrow> string" where
  "writeSep result = (if length result > 0 then result @ IDSep else result)"

fun ID_identifiers :: "nat \<Rightarrow> nat \<Rightarrow> string list \<Rightarrow> string \<Rightarrow> string" where
  "ID_identifiers n i [] result = result"
| "ID_identifiers n i (ident # rest) result =
     ID_identifiers n (i + 1) rest
       (if int i < int n - 1 then writeSep (result @ IDSanitizer_Replace ident)
        else result @ IDSanitizer_Replace ident)"

definition ID_field :: "string \<Rightarrow> string \<Rightarrow> string" where
  "ID_field field result =
     (if field \<noteq> '''' then writeSep result @ IDSanitizer_Replace field else result)"

definition Device_ID :: "Device \<Rightarrow> string" where
  "Device_ID d =
     (if d_DiscoveryID d \<noteq> '''' then d_DiscoveryID d
      else
        (let result = '''';
             result = (if length (d_Identifiers d) > 0
                       then ID_identifiers (length (d_Identifiers d)) 0 (d_Identifiers d) result
                       else result);
             result = ID_field (d_Name d) result;
             result = ID_field (d_Serial d) result;
             result = ID_field (d_Manufacturer d) result;
             result = ID_field (d_Model d) result;
             result = ID_field (d_ModelID d) result
         in result))"

definition Device_Valid :: "Device \<Rightarrow> err option" where
  "Device_Valid d =
     (if length (d_Identifiers d) = 0 \<and> length (d_Connections d) = 0 then Some ErrInvalidDevice
      else None)"

text \<open>
  \<open>Configure\<close>. \<open>reject\<close> and \<open>bytes\<close> are the behaviour of the encoder that
  \<open>jsontext.NewEncoder\<close> returns; \<open>components\<close> is the map of \<open>json.MarshalerTo\<close> values.
  The result is the writer and the error returned.
\<close>

definition Device_Configure ::
  "(written list \<Rightarrow> written \<Rightarrow> err option) \<Rightarrow> (written list \<Rightarrow> string) \<Rightarrow> Writer \<Rightarrow> string
     \<Rightarrow> (string \<times> MarshalerTo) list \<Rightarrow> Device \<Rightarrow> Writer \<times> err option" where
  "Device_Configure reject bytes w discoveryPrefix components d =
     (case Device_Valid d of
        Some failure \<Rightarrow> (w, Some failure)
      | None \<Rightarrow>
          (let e = NewEncoder reject bytes;
               (e', failure) =
                  errors_Join_calls
                    [WriteToken BeginObject,
                     MarshalStd ''device'' FieldDevice (Some (GoDevice d)),
                     MarshalStd ''origin'' FieldOrigin
                       (Some (GoOrigin (case d_Origin d of Some ogn \<Rightarrow> ogn | None \<Rightarrow> DefaultOrigin))),
                     WriteToken (String FieldComponents),
                     WriteToken BeginObject,
                     MaybeInlineMarshalStd MarshalEncode_MarshalerTo components,
                     WriteToken EndObject,
                     WriteToken EndObject] e
           in case failure of
                Some x \<Rightarrow> (w, Some (Errorf ''configure: marshal discovery config'' x))
              | None \<Rightarrow>
                  (let topic = discoveryPrefix @ ''/device/'' @ Device_ID d @ ''/config''
                   in WriteTopic topic \<lparr>wo_QoS = 0, wo_Retain = True\<rparr>
                        (e_bytes e' (e_written e')) w)))"


section \<open>Codecs and the availability cell (marshal.go, package hass, hass.go of discovery)\<close>

definition StringMarshaler :: "string \<Rightarrow> err + string" where
  "StringMarshaler v = Inr v"

definition StringUnmarshaler :: "string \<Rightarrow> err + string" where
  "StringUnmarshaler bytes = Inr bytes"

text \<open>\<open>hass.Availability\<close> is a string type; its codecs convert and call the string codecs.\<close>

definition AvailabilityMarshaler :: "string \<Rightarrow> err + string" where
  "AvailabilityMarshaler v = StringMarshaler v"

definition AvailabilityUnmarshaler :: "string \<Rightarrow> err + string" where
  "AvailabilityUnmarshaler bytes =
     (case StringUnmarshaler bytes of Inl failure \<Rightarrow> Inl failure | Inr v \<Rightarrow> Inr v)"

definition Available :: string where "Available = ''online''"
definition Unavailable :: string where "Unavailable = ''offline''"

definition DefaultPrefix :: string where "DefaultPrefix = ''homeassistant''"
definition StatusTopic :: string where "StatusTopic = ''status''"

definition HomeAssistantAvailability :: "string \<Rightarrow> (string, 'w) RemoteValue" where
  "HomeAssistantAvailability discoveryPrefix =
     NewRemoteValue '''' (JoinTopic [discoveryPrefix, StatusTopic]) (Some AvailabilityUnmarshaler)"

section \<open>Example configurations\<close>

text \<open>Concrete cells, observers and collaborators at which the results are evaluated.\<close>

text \<open>An observer that appends the value it is called with to the world, a list.\<close>

definition record_call :: "'a \<Rightarrow> 'a list \<Rightarrow> 'a list" where
  "record_call t world = world @ [t]"

text \<open>
  A decoder an application could supply, which accepts one payload only, and stand-ins for
  \<open>json.Unmarshal\<close>: at the type \<open>uint\<close>, right on the two payloads it is given below, and
  at a string type, where JSON wants the payload quoted.
\<close>

definition only_online :: "string \<Rightarrow> err + string" where
  "only_online bytes =
     (if bytes = ''online'' then Inr bytes else Inl (ErrorNew ''unknown availability''))"

definition json_uint :: "string \<Rightarrow> err + nat" where
  "json_uint bytes =
     (if bytes = ''7'' then Inr 7 else Inl (ErrorNew ''json: cannot unmarshal into uint''))"

definition json_string :: "string \<Rightarrow> err + string" where
  "json_string bytes =
     (if bytes = CHR 0x22 # ''online'' @ [CHR 0x22] then Inr ''online''
      else Inl (ErrorNew ''json: cannot unmarshal into string''))"

text \<open>
  The cell of \<open>HomeAssistantAvailability\<close> under the default prefix; a cell on the same
  topic with the one-payload decoder, one observer and a value received; a \<open>uint\<close> cell
  constructed with a nil decoder, with one observer.
\<close>

definition status_cell :: "(string, 'w) RemoteValue" where
  "status_cell = HomeAssistantAvailability DefaultPrefix"

definition watched_cell :: "(string, string list) RemoteValue" where
  "watched_cell =
     (fst (RemoteValue_Watch record_call
             (NewRemoteValue '''' ''homeassistant/status'' (Some only_online))))
       \<lparr>rv_v := ''online'', rv_initialized := True\<rparr>"

definition uint_cell :: "(nat, nat list) RemoteValue" where
  "uint_cell = fst (RemoteValue_Watch record_call (NewRemoteValue 0 ''brightness/set'' None))"

text \<open>A transport that is down: every \<open>WriteTopic\<close> fails.\<close>

definition offline_writer :: Writer where
  "offline_writer = \<lparr>w_calls = [], w_reply = (\<lambda>calls call. Some (ErrorNew ''offline''))\<rparr>"

definition state_cell :: "string Value" where
  "state_cell = NewValue '''' ''state'' (Some StringMarshaler)"

text \<open>An encoder that accepts every write, and a rendering that shows nothing of it.\<close>

definition accept_all :: "written list \<Rightarrow> written \<Rightarrow> err option" where
  "accept_all accepted x = None"

definition no_bytes :: "written list \<Rightarrow> string" where
  "no_bytes accepted = ''''"

text \<open>A transport that accepts every call.\<close>

definition online_writer :: Writer where
  "online_writer = \<lparr>w_calls = [], w_reply = (\<lambda>calls call. None)\<rparr>"

definition accepting_subscriber :: Subscriber where
  "accepting_subscriber = \<lparr>s_calls = [], s_reply = (\<lambda>calls call. None)\<rparr>"

text \<open>
  A light with its required command cell and nothing else; the same light with both
  hue/saturation cells, with the hue/saturation state cell only, and with both xy cells.
\<close>

definition bare_light :: "unit Light" where
  "bare_light =
     \<lparr>l_OnCommandType = '''', l_Optimistic = False, l_State = None,
      l_Command = Some (NewRemoteValue '''' ''command'' (Some StringUnmarshaler)),
      l_CustomPowerStateValues = \<lparr>cps_On = '''', cps_Off = ''''\<rparr>,
      l_ColorMode = None, l_ColorModeCommand = None, l_SupportedColorModes = [],
      l_Brightness = None, l_BrightnessCommand = None, l_BrightnessScale = 0,
      l_ColorTemperature = None, l_ColorTemperatureCommand = None,
      l_ColorTemperatureInKelvin = False, l_MaxKelvin = 0, l_MinKelvin = 0,
      l_MaxMireds = 0, l_MinMireds = 0,
      l_HueSat = None, l_HueSatCommand = None, l_XY = None, l_XYCommand = None,
      l_RGB = None, l_RGBCommand = None, l_RGBW = None, l_RGBWCommand = None,
      l_RGBWW = None, l_RGBWWCommand = None, l_WhiteBrightnessCommand = None,
      l_WhiteScale = 0, l_Effect = None, l_EffectCommand = None, l_PossibleEffects = []\<rparr>"

definition HueSat_zero :: HueSat where
  "HueSat_zero = \<lparr>hs_Hue = 0, hs_Saturation = 0\<rparr>"

definition XY_zero :: XY where
  "XY_zero = \<lparr>xy_X = 0, xy_Y = 0\<rparr>"

definition hs_light :: "unit Light" where
  "hs_light =
     bare_light\<lparr>l_HueSat := Some (NewValue HueSat_zero ''hs'' None),
                l_HueSatCommand := Some (NewRemoteValue HueSat_zero ''hs/set'' None)\<rparr>"

definition hs_state_only_light :: "unit Light" where
  "hs_state_only_light = bare_light\<lparr>l_HueSat := Some (NewValue HueSat_zero ''hs'' None)\<rparr>"

definition xy_light :: "unit Light" where
  "xy_light =
     bare_light\<lparr>l_XY := Some (NewValue XY_zero ''xy'' None),
                l_XYCommand := Some (NewRemoteValue XY_zero ''xy/set'' None)\<rparr>"

text \<open>
  Components: a light without an availability cell, a sensor without a state cell, and a
  sensor that is complete.
\<close>

definition component_of :: "'p \<Rightarrow> string \<Rightarrow> string Value option \<Rightarrow> 'p Component" where
  "component_of p prefix availability =
     \<lparr>c_Platform = p, c_TopicPrefix = prefix, c_Name = '''', c_EntityCategory = '''',
      c_Icon = '''', c_Picture = None, c_Availability = availability,
      c_CustomAvailabilityValues = \<lparr>ca_Available = '''', ca_Unavailable = ''''\<rparr>,
      c_DefaultEntityID = '''', c_UniqueID = '''', c_WriteOptions = WriteOptions_zero,
      c_subscribedTopics = []\<rparr>"

definition sensor_of :: "string Value option \<Rightarrow> (string, unit) Sensor" where
  "sensor_of state =
     \<lparr>s_ExpireMeasurementsAfter = 0, s_ForceUpdate = False, s_Attributes = None,
      s_EnumOptions = [], s_SuggestedDisplayPrecision = 0, s_StateClass = '''',
      s_State = state, s_UnitOfMeasurement = ''''\<rparr>"

definition light_without_availability :: "unit Light Component" where
  "light_without_availability = component_of bare_light ''hqtt/lamp'' None"

definition sensor_without_state :: "(string, unit) Sensor Component" where
  "sensor_without_state =
     component_of (sensor_of None) ''hqtt/pir''
       (Some (NewValue '''' ''available'' (Some StringMarshaler)))"

definition complete_sensor :: "(string, unit) Sensor Component" where
  "complete_sensor =
     component_of (sensor_of (Some (NewValue '''' ''state'' (Some StringMarshaler)))) ''hqtt/pir''
       (Some (NewValue '''' ''available'' (Some StringMarshaler)))"

text \<open>A device with one identifier, and a device with neither identifier nor connection.\<close>

definition device_of :: "string list \<Rightarrow> DeviceConnection list \<Rightarrow> Device" where
  "device_of identifiers connections =
     \<lparr>d_DiscoveryID = '''', d_Name = ''Example Device'', d_Serial = '''', d_Manufacturer = '''',
      d_Model = '''', d_ModelID = '''', d_ConfigurationURL = None, d_Connections = connections,
      d_HardwareVersion = '''', d_FirmwareVersion = '''', d_Identifiers = identifiers,
      d_SuggestedArea = '''', d_Origin = None, d_ViaDevice = ''''\<rparr>"

definition example_device :: Device where
  "example_device = device_of [''hqtt/example/fake_light''] []"

definition anonymous_device :: Device where
  "anonymous_device = device_of [] []"

text \<open>The map of components handed to \<open>Configure\<close>: the two faulty ones, and the complete one.\<close>

definition faulty_components :: "(string \<times> MarshalerTo) list" where
  "faulty_components =
     [(''example.foo'', Component_MarshalJSONTo Light_Platform light_without_availability),
      (''example.foo.pir'', Component_MarshalJSONTo (Sensor_Platform GoString) sensor_without_state)]"

definition good_components :: "(string \<times> MarshalerTo) list" where
  "good_components =
     [(''example.foo.pir'', Component_MarshalJSONTo (Sensor_Platform GoString) complete_sensor)]"

section \<open>Topic paths: results\<close>

lemma TrimTopic_examples:
  "TrimTopic '''' = ''''" "TrimTopic ''/'' = ''''" "TrimTopic ''/a/b/'' = ''a/b''"
  by (simp_all add: TrimTopic_def strings_Trim_def TopicSeparator_def)

lemma JoinTopic_examples:
  "JoinTopic ['''', ''a'', '''', ''b''] = ''a/b''"
  "JoinTopic [''a'', ''/'', ''b''] = ''a/b''"
  "JoinTopic [''/a/b/'', ''c''] = ''a/b/c''"
  by (simp_all add: JoinTopic_def TrimTopic_def strings_Trim_def TopicSeparator_def)

text \<open>
  C6 (joining is idempotent). The code does not do this: a kept part is followed by a
  separator whenever it is not at the last index, also when every later part is skipped.
  \<open>JoinTopic("a", "")\<close> is \<open>"a/"\<close>, and joining that single string again gives \<open>"a"\<close>.
\<close>

theorem JoinTopic_trailing_skip_not_idempotent:
  "JoinTopic [''a'', ''''] = ''a/'' \<and>
   JoinTopic [JoinTopic [''a'', '''']] = ''a'' \<and>
   JoinTopic [JoinTopic [''a'', '''']] \<noteq> JoinTopic [''a'', '''']"
  by (simp add: JoinTopic_def TrimTopic_def strings_Trim_def TopicSeparator_def)

section \<open>Value cells: results\<close>

subsection \<open>\<open>Value.Write\<close> and \<open>Value.Get\<close>\<close>

lemma Value_Write_cell:
  "fst (Value_Write w prefix x v) =
     (if serializes v x then v\<lparr>v_v := x, v_initialized := True\<rparr> else v)"
  by (simp add: Value_Write_def serializes_def Let_def split: option.splits sum.splits prod.splits)

lemma serializes_update [simp]:
  "serializes (v\<lparr>v_v := x, v_initialized := b\<rparr>) y = serializes v y"
  by (simp add: serializes_def)

lemma Value_Writes_initialized:
  "v_initialized (fst (Value_Writes history v w)) =
     (v_initialized v \<or> list_ex (\<lambda>(p, y). serializes v y) history)"
proof (induction history arbitrary: v w)
  case Nil
  show ?case by simp
next
  case (Cons a history)
  obtain p x where a: "a = (p, x)" by (cases a)
  obtain v' w' r where step: "Value_Write w p x v = (v', w', r)" by (cases "Value_Write w p x v")
  have v': "v' = (if serializes v x then v\<lparr>v_v := x, v_initialized := True\<rparr> else v)"
    using Value_Write_cell [of w p x v] step by simp
  have "v_initialized (fst (Value_Writes (a # history) v w)) =
          v_initialized (fst (Value_Writes history v' w'))"
    by (simp add: a step)
  also have "\<dots> = (v_initialized v' \<or> list_ex (\<lambda>(p, y). serializes v' y) history)"
    by (rule Cons.IH)
  also have "\<dots> = (v_initialized v \<or> list_ex (\<lambda>(p, y). serializes v y) (a # history))"
    by (auto simp: v' a)
  finally show ?case .
qed

text \<open>
  C8. When the marshaler accepts the value, \<open>Write\<close> stores it before it publishes: \<open>Get\<close>
  on the resulting cell returns the value with the flag true, and the error \<open>Write\<close> returns
  is whatever the transport answered, nil or not. A cell as constructed has the flag
  false with the zero value of its type. After any history of \<open>Write\<close> calls, against any
  transport, the flag is true exactly when it was true before or some call of the history
  got past serialization; so a cell on which no \<open>Write\<close> has stored a value reports false.
\<close>

theorem Value_Write_then_Get:
  "(v_marshaler v = Some marshal \<and> marshal x = Inr data \<longrightarrow>
      (case Value_Write w prefix x v of
         (v', w', r) \<Rightarrow>
           Value_Get v' = (x, True) \<and>
           r = (x, w_reply w (w_calls w) (JoinTopic [prefix, v_topic v], v_opts v, data))))
   \<and> Value_Get (NewValueWithOptions zero topic marshal0 opts) = (zero, False)
   \<and> snd (Value_Get (fst (Value_Writes history v w))) =
        (v_initialized v \<or> list_ex (\<lambda>(p, y). serializes v y) history)"
proof (intro conjI impI)
  assume "v_marshaler v = Some marshal \<and> marshal x = Inr data"
  then show "case Value_Write w prefix x v of
         (v', w', r) \<Rightarrow>
           Value_Get v' = (x, True) \<and>
           r = (x, w_reply w (w_calls w) (JoinTopic [prefix, v_topic v], v_opts v, data))"
    by (simp add: Value_Write_def WriteTopic_def Value_Get_def Let_def)
next
  show "Value_Get (NewValueWithOptions zero topic marshal0 opts) = (zero, False)"
    by (simp add: Value_Get_def NewValueWithOptions_def)
next
  show "snd (Value_Get (fst (Value_Writes history v w))) =
        (v_initialized v \<or> list_ex (\<lambda>(p, y). serializes v y) history)"
    by (simp add: Value_Get_def Value_Writes_initialized)
qed

theorem Value_Write_then_Get_witness:
  "(case Value_Write offline_writer ''hqtt/example'' ''ON'' state_cell of
      (v', w', r) \<Rightarrow>
        Value_Get v' = (''ON'', True) \<and> r = (''ON'', Some (ErrorNew ''offline'')))
   \<and> Value_Get state_cell = ('''', False)
   \<and> snd (Value_Get (fst (Value_Writes [(''hqtt'', ''ON''), (''hqtt'', ''OFF'')]
                              (NewValue '''' ''state'' None) offline_writer))) = False"
  using Value_Write_then_Get [where v = state_cell and marshal = StringMarshaler and x = "''ON''"
      and data = "''ON''" and w = offline_writer and prefix = "''hqtt/example''"
      and zero = "''''" and topic = "''state''" and ?marshal0.0 = "Some StringMarshaler"
      and opts = WriteOptions_zero and history = "[]"]
    Value_Write_then_Get [where v = "NewValue '''' ''state'' None" and w = offline_writer
      and history = "[(''hqtt'', ''ON''), (''hqtt'', ''OFF'')]"
      and zero = "''''" and topic = "''state''" and ?marshal0.0 = "Some StringMarshaler"
      and opts = WriteOptions_zero]
  by (simp add: state_cell_def NewValue_def NewValueWithOptions_def StringMarshaler_def
      offline_writer_def serializes_def)

subsection \<open>\<open>RemoteValue.Unwatch\<close> and \<open>RemoteValue.Await\<close>\<close>

text \<open>
  What \<open>Unwatch\<close> does with each id: an id the guard rejects (any id when nothing is
  registered, an id below 1, among them the first observer's id 0, or an id above the
  number of observers) is logged and changes nothing else; an id from 1 to the number of
  observers less one removes that observer; the id equal to the number of observers
  passes the guard and panics.
\<close>

lemma RemoteValue_Unwatch_rejected:
  "rv_watchers v = [] \<or> wid < 1 \<or> wid > int (length (rv_watchers v)) \<Longrightarrow>
   RemoteValue_Unwatch wid v =
     Inr (v\<lparr>rv_log := rv_log v @ [(Warn, ''Tried to remove an invalid watcher'')]\<rparr>)"
  by (simp add: RemoteValue_Unwatch_def)

lemma RemoteValue_Unwatch_at_count:
  "rv_watchers v \<noteq> [] \<Longrightarrow>
   RemoteValue_Unwatch (int (length (rv_watchers v))) v = Inl (Panic ''slice bounds out of range'')"
  by (simp add: RemoteValue_Unwatch_def Let_def)

lemma RemoteValue_Unwatch_removes:
  "1 \<le> wid \<Longrightarrow> wid < int (length (rv_watchers v)) \<Longrightarrow>
   RemoteValue_Unwatch wid v =
     Inr (v\<lparr>rv_log := rv_log v @ [(Debug, ''Removing watcher'')],
            rv_watchers := take (nat wid) (rv_watchers v) @ drop (nat wid + 1) (rv_watchers v)\<rparr>)"
  by (auto simp add: RemoteValue_Unwatch_def Let_def nat_add_distrib)

lemma RemoteValue_Unwatch_first_id_kept:
  "RemoteValue_Unwatch 0 v =
     Inr (v\<lparr>rv_log := rv_log v @ [(Warn, ''Tried to remove an invalid watcher'')]\<rparr>)"
  by (simp add: RemoteValue_Unwatch_def)

lemma ServeMQTT_watchers [simp]:
  "rv_watchers (fst (RemoteValue_ServeMQTT J topic payload v world)) = rv_watchers v"
  by (simp add: RemoteValue_ServeMQTT_def Let_def split: sum.splits)

lemma Await_select_watchers [simp]:
  "rv_watchers (fst (Await_select J i deliveries v world)) = rv_watchers v"
proof (induction deliveries arbitrary: v world)
  case Nil
  show ?case by simp
next
  case (Cons d deliveries)
  obtain topic payload where d: "d = (topic, payload)" by (cases d)
  obtain v' world' where s: "RemoteValue_ServeMQTT J topic payload v world = (v', world')"
    by (cases "RemoteValue_ServeMQTT J topic payload v world")
  have "rv_watchers v' = rv_watchers v"
    using ServeMQTT_watchers [of J topic payload v world] s by simp
  then show ?case
    using Cons.IH [of v' world'] by (simp add: d s split: option.splits)
qed

text \<open>
  When \<open>Await\<close> returns, it has restored the observer list if the list was not empty,
  and has left its closure behind if the list was empty.
\<close>

lemma RemoteValue_Await_watchers:
  assumes "RemoteValue_Await J zero desired deliveries cause v world = Inr (v', world', r)"
  shows "rv_watchers v' =
       (if rv_watchers v = [] then [Await_callback (ah_next (fst world)) desired]
        else rv_watchers v)"
proof -
  define i where "i = ah_next (fst world)"
  define world0 where "world0 =
    ((fst world)\<lparr>ah_frames := (ah_frames (fst world)) (i := \<lparr>af_got = zero, af_done = False\<rparr>),
                  ah_next := i + 1\<rparr>, snd world)"
  define v0 where "v0 = v\<lparr>rv_log := rv_log v @ [(Debug, ''Awaiting value'')]\<rparr>"
  define n where "n = int (length (rv_watchers v))"
  obtain v1 where watch: "RemoteValue_Watch (Await_callback i desired) v0 = (v1, n)"
    and w1: "rv_watchers v1 = rv_watchers v @ [Await_callback i desired]"
    by (simp add: RemoteValue_Watch_def Let_def v0_def n_def)
  obtain v2 world2 where sel: "Await_select J i deliveries v1 world0 = (v2, world2)"
    by (cases "Await_select J i deliveries v1 world0") auto
  have "rv_watchers (fst (Await_select J i deliveries v1 world0)) = rv_watchers v1"
    by (rule Await_select_watchers)
  then have w2: "rv_watchers v2 = rv_watchers v @ [Await_callback i desired]"
    unfolding sel by (simp add: w1)
  define frame where "frame = ah_frames (fst world2) i"
  define v3 where "v3 =
    (if af_done frame then v2
     else v2\<lparr>rv_log := rv_log v2 @ [(Debug, ''Timeout waiting for value'')]\<rparr>)"
  have w3: "rv_watchers v3 = rv_watchers v @ [Await_callback i desired]"
    by (simp add: v3_def w2)
  define result where
    "result = (if af_done frame then (af_got frame, None) else (af_got frame, Some cause))"
  have await: "RemoteValue_Await J zero desired deliveries cause v world =
      (case ah_panic (fst world2) of
         Some p \<Rightarrow> Inl p
       | None \<Rightarrow>
           (case RemoteValue_Unwatch n v3 of
              Inl p \<Rightarrow> Inl p
            | Inr v4 \<Rightarrow> Inr (v4, world2, result)))"
    unfolding RemoteValue_Await_def Let_def i_def [symmetric] world0_def [symmetric]
      v0_def [symmetric]
    by (simp only: watch sel prod.case v3_def result_def frame_def)
  from assms await have no_panic: "ah_panic (fst world2) = None"
    by (cases "ah_panic (fst world2)") simp_all
  show ?thesis
  proof (cases "rv_watchers v = []")
    case True
    then have "RemoteValue_Unwatch n v3 =
        Inr (v3\<lparr>rv_log := rv_log v3 @ [(Warn, ''Tried to remove an invalid watcher'')]\<rparr>)"
      by (simp add: RemoteValue_Unwatch_def n_def)
    with assms await no_panic show ?thesis
      by (auto simp add: w3 True i_def)
  next
    case False
    then have "RemoteValue_Unwatch n v3 =
        Inr (v3\<lparr>rv_log := rv_log v3 @ [(Debug, ''Removing watcher'')],
                rv_watchers := rv_watchers v\<rparr>)"
      by (simp add: RemoteValue_Unwatch_def n_def w3 Let_def)
    with assms await no_panic show ?thesis
      by (auto simp add: False)
  qed
qed

lemmas Await_defs =
  RemoteValue_Await_def RemoteValue_Unwatch_def RemoteValue_Watch_def RemoteValue_ServeMQTT_def
  Await_callback_def no_awaits_def DesiredValue_def status_cell_def HomeAssistantAvailability_def
  DefaultPrefix_def StatusTopic_def AvailabilityUnmarshaler_def StringUnmarshaler_def
  NewRemoteValue_def NewRemoteValueWithOptions_def JoinTopic_def TrimTopic_def strings_Trim_def
  TopicSeparator_def Available_def Unavailable_def Let_def

text \<open>
  C1 (\<open>Unwatch\<close> of an unknown or out-of-range id is a logged no-op that never panics).
  With one observer registered, whose id is 0, the id 1 is out of range; \<open>Unwatch(1)\<close>
  passes the guard and panics in the slice expression \<open>v.watchers[2:]\<close>.
\<close>

theorem RemoteValue_Unwatch_count_panics:
  "snd (RemoteValue_Watch record_call (status_cell :: (string, string list) RemoteValue)) = 0 \<and>
   length (rv_watchers (fst (RemoteValue_Watch record_call
      (status_cell :: (string, string list) RemoteValue)))) = 1 \<and>
   RemoteValue_Unwatch 1
     (fst (RemoteValue_Watch record_call (status_cell :: (string, string list) RemoteValue))) =
     Inl (Panic ''slice bounds out of range'')"
  by (simp add: RemoteValue_Unwatch_def RemoteValue_Watch_def status_cell_def
      HomeAssistantAvailability_def NewRemoteValue_def NewRemoteValueWithOptions_def Let_def)

text \<open>
  C2 (\<open>Await\<close> leaves the observer list as it found it, on every exit). On a cell with no
  observer the transient observer gets the id 0, which the deferred \<open>Unwatch\<close> rejects:
  after \<open>Await\<close> the cell has one observer, on the cancellation exit (no delivery) and on
  the exit through \<open>done\<close> (the awaited value is delivered).
\<close>

theorem RemoteValue_Await_first_observer_stays:
  "rv_watchers (status_cell :: (string, string await_heap \<times> unit) RemoteValue) = [] \<and>
   (case RemoteValue_Await json_string '''' (DesiredValue Available) []
           (ErrorNew ''context deadline exceeded'') status_cell (no_awaits '''', ()) of
      Inl p \<Rightarrow> False
    | Inr (v', world', r) \<Rightarrow>
        length (rv_watchers v') = 1 \<and> r = ('''', Some (ErrorNew ''context deadline exceeded''))) \<and>
   (case RemoteValue_Await json_string '''' (DesiredValue Available)
           [(''homeassistant/status'', ''online'')]
           (ErrorNew ''context deadline exceeded'') status_cell (no_awaits '''', ()) of
      Inl p \<Rightarrow> False
    | Inr (v', world', r) \<Rightarrow> length (rv_watchers v') = 1 \<and> r = (''online'', None))"
  by (simp add: Await_defs)

text \<open>
  The closure left behind belongs to the call that made it. A second \<open>Await\<close> on the same
  cell, for another value, returns that value when it is delivered and restores the list
  to the one closure it found; when instead the first call's value is delivered again,
  the closure left behind closes its channel a second time and the program panics.
\<close>

lemma RemoteValue_Await_after_first:
  "(case RemoteValue_Await json_string '''' (DesiredValue Available)
           [(''homeassistant/status'', ''online'')]
           (ErrorNew ''context deadline exceeded'') status_cell (no_awaits '''', ()) of
      Inl p \<Rightarrow> False
    | Inr (v1, world1, r1) \<Rightarrow>
        (case RemoteValue_Await json_string '''' (DesiredValue Unavailable)
                [(''homeassistant/status'', ''offline'')]
                (ErrorNew ''context deadline exceeded'') v1 world1 of
           Inl p \<Rightarrow> False
         | Inr (v2, world2, r2) \<Rightarrow> length (rv_watchers v2) = 1 \<and> r2 = (''offline'', None)) \<and>
        RemoteValue_Await json_string '''' (DesiredValue Unavailable)
                [(''homeassistant/status'', ''online'')]
                (ErrorNew ''context deadline exceeded'') v1 world1 =
          Inl (Panic ''close of closed channel''))"
  by (simp add: Await_defs)

subsection \<open>\<open>RemoteValue.ServeMQTT\<close>\<close>

text \<open>
  C7. A payload on the cell's exact topic that its decoder rejects (the configured decoder,
  or the JSON decoder when none is configured) leaves the stored value, the flag and so
  the result of \<open>Get\<close> as they were, leaves the world untouched whatever the observers
  are, and logs a warning. A payload on any other topic leaves the whole cell and the
  world as they were.
\<close>

theorem RemoteValue_ServeMQTT_rejected_delivery:
  "(rv_topic v = topic \<and>
      ((\<exists>u. rv_unmarshaler v = Some u \<and> u payload = Inl e) \<or>
       (rv_unmarshaler v = None \<and> JsonValueUnmarshaler json_Unmarshal payload = Inl e)) \<longrightarrow>
      (case RemoteValue_ServeMQTT json_Unmarshal topic payload v world of
         (v', world') \<Rightarrow>
           rv_v v' = rv_v v \<and> rv_initialized v' = rv_initialized v \<and>
           RemoteValue_Get v' = RemoteValue_Get v \<and>
           rv_watchers v' = rv_watchers v \<and>
           rv_log v' = rv_log v @ [(Warn, ''Failed to unmarshal payload from mqtt'')] \<and>
           world' = world))
   \<and> (rv_topic v \<noteq> topic \<longrightarrow>
        RemoteValue_ServeMQTT json_Unmarshal topic payload v world = (v, world))"
  by (auto simp add: RemoteValue_ServeMQTT_def RemoteValue_Get_def Let_def)

theorem RemoteValue_ServeMQTT_rejected_delivery_witness:
  "(case RemoteValue_ServeMQTT StringUnmarshaler ''homeassistant/status'' ''restarting''
           watched_cell [''online''] of
      (v', world') \<Rightarrow> RemoteValue_Get v' = (''online'', True) \<and> world' = [''online''])
   \<and> RemoteValue_ServeMQTT StringUnmarshaler ''homeassistant/status/'' ''offline''
        watched_cell [''online''] = (watched_cell, [''online''])"
  using RemoteValue_ServeMQTT_rejected_delivery [where v = watched_cell
      and topic = "''homeassistant/status''" and payload = "''restarting''"
      and e = "ErrorNew ''unknown availability''" and json_Unmarshal = StringUnmarshaler
      and world = "[''online'']"]
    RemoteValue_ServeMQTT_rejected_delivery [where v = watched_cell
      and topic = "''homeassistant/status/''" and payload = "''offline''"
      and json_Unmarshal = StringUnmarshaler and world = "[''online'']"]
  by (simp add: watched_cell_def NewRemoteValue_def NewRemoteValueWithOptions_def
      RemoteValue_Watch_def RemoteValue_Get_def only_online_def Let_def split: prod.splits)

text \<open>
  Deliveries leave the topic and the observers of a cell as they are, and a cell whose
  decoder is nil or the JSON decoder keeps a decoder that is nil or the JSON decoder; once
  a delivery on the cell's topic has been handled, it is the JSON decoder.
\<close>

lemma RemoteValue_ServeMQTT_topic [simp]:
  "rv_topic (fst (RemoteValue_ServeMQTT J topic payload v world)) = rv_topic v"
  by (simp add: RemoteValue_ServeMQTT_def Let_def split: sum.splits)

lemma RemoteValue_ServeMQTT_decoder:
  "rv_unmarshaler (fst (RemoteValue_ServeMQTT J topic payload v world)) =
     (if rv_topic v = topic
      then Some (case rv_unmarshaler v of None \<Rightarrow> JsonValueUnmarshaler J | Some u \<Rightarrow> u)
      else rv_unmarshaler v)"
  by (simp add: RemoteValue_ServeMQTT_def Let_def split: sum.splits)

lemma RemoteValue_deliveries_json:
  assumes "rv_unmarshaler v = None \<or> rv_unmarshaler v = Some (JsonValueUnmarshaler J)"
  shows "rv_topic (fst (RemoteValue_deliveries J ds v world)) = rv_topic v \<and>
         rv_watchers (fst (RemoteValue_deliveries J ds v world)) = rv_watchers v \<and>
         (rv_unmarshaler (fst (RemoteValue_deliveries J ds v world)) = None \<or>
          rv_unmarshaler (fst (RemoteValue_deliveries J ds v world)) =
            Some (JsonValueUnmarshaler J)) \<and>
         (rv_unmarshaler v = Some (JsonValueUnmarshaler J) \<or>
            list_ex (\<lambda>(t, p). t = rv_topic v) ds \<longrightarrow>
          rv_unmarshaler (fst (RemoteValue_deliveries J ds v world)) =
            Some (JsonValueUnmarshaler J))"
  using assms
proof (induction ds arbitrary: v world)
  case Nil
  then show ?case by simp
next
  case (Cons d ds)
  obtain topic payload where d: "d = (topic, payload)" by (cases d)
  obtain v' world' where s: "RemoteValue_ServeMQTT J topic payload v world = (v', world')"
    by (cases "RemoteValue_ServeMQTT J topic payload v world")
  have t': "rv_topic v' = rv_topic v"
    using RemoteValue_ServeMQTT_topic [of J topic payload v world] s by simp
  have w': "rv_watchers v' = rv_watchers v"
    using ServeMQTT_watchers [of J topic payload v world] s by simp
  have u': "rv_unmarshaler v' =
     (if rv_topic v = topic
      then Some (case rv_unmarshaler v of None \<Rightarrow> JsonValueUnmarshaler J | Some u \<Rightarrow> u)
      else rv_unmarshaler v)"
    using RemoteValue_ServeMQTT_decoder [of J topic payload v world] s by simp
  have inv': "rv_unmarshaler v' = None \<or> rv_unmarshaler v' = Some (JsonValueUnmarshaler J)"
    using Cons.prems u' by auto
  have now: "rv_unmarshaler v = Some (JsonValueUnmarshaler J) \<or> topic = rv_topic v \<longrightarrow>
      rv_unmarshaler v' = Some (JsonValueUnmarshaler J)"
    using Cons.prems u' by auto
  have step: "RemoteValue_deliveries J (d # ds) v world = RemoteValue_deliveries J ds v' world'"
    by (simp add: d s)
  from Cons.IH [OF inv', of world'] now show ?case
    unfolding step by (auto simp add: t' w' d)
qed

text \<open>
  C10. Take a cell constructed with a nil decoder and any run of earlier deliveries to it,
  on any topics. The next delivery on the cell's exact topic, the first or a later one,
  leaves the JSON decoder of the cell's type installed and decodes with it: a payload it
  decodes is stored, sets the flag and runs every observer, in order, on the decoded
  value; a payload it rejects is handled as a decoding error, with a warning logged and
  nothing else changed. Once an earlier delivery was on the cell's topic, the JSON decoder
  is already installed.
\<close>

theorem RemoteValue_ServeMQTT_installs_json:
  "rv_unmarshaler v = None \<longrightarrow>
     (case RemoteValue_deliveries json_Unmarshal earlier v world of
        (vn, worldn) \<Rightarrow>
          (list_ex (\<lambda>(t, p). t = rv_topic v) earlier \<longrightarrow>
             rv_unmarshaler vn = Some (JsonValueUnmarshaler json_Unmarshal)) \<and>
          (case RemoteValue_ServeMQTT json_Unmarshal (rv_topic v) payload vn worldn of
             (v', world') \<Rightarrow>
               rv_unmarshaler v' = Some (JsonValueUnmarshaler json_Unmarshal) \<and>
               (case json_Unmarshal payload of
                  Inr x \<Rightarrow>
                    rv_v v' = x \<and> rv_initialized v' \<and> RemoteValue_Get v' = (x, True) \<and>
                    world' = fold (\<lambda>w. w x) (rv_watchers v) worldn
                | Inl e \<Rightarrow>
                    RemoteValue_Get v' = RemoteValue_Get vn \<and> world' = worldn \<and>
                    rv_log v' =
                      rv_log vn @ [(Warn, ''Failed to unmarshal payload from mqtt'')])))"
proof
  assume nil: "rv_unmarshaler v = None"
  obtain vn worldn where run: "RemoteValue_deliveries json_Unmarshal earlier v world = (vn, worldn)"
    by (cases "RemoteValue_deliveries json_Unmarshal earlier v world")
  from RemoteValue_deliveries_json [of v json_Unmarshal earlier world] nil run
  have topic: "rv_topic vn = rv_topic v"
    and watchers: "rv_watchers vn = rv_watchers v"
    and decoder: "rv_unmarshaler vn = None \<or>
        rv_unmarshaler vn = Some (JsonValueUnmarshaler json_Unmarshal)"
    and installed: "list_ex (\<lambda>(t, p). t = rv_topic v) earlier \<longrightarrow>
        rv_unmarshaler vn = Some (JsonValueUnmarshaler json_Unmarshal)"
    by simp_all
  have effective: "(case rv_unmarshaler vn of None \<Rightarrow> JsonValueUnmarshaler json_Unmarshal
      | Some u \<Rightarrow> u) = JsonValueUnmarshaler json_Unmarshal"
    using decoder by auto
  have next_delivery:
    "case RemoteValue_ServeMQTT json_Unmarshal (rv_topic v) payload vn worldn of
       (v', world') \<Rightarrow>
         rv_unmarshaler v' = Some (JsonValueUnmarshaler json_Unmarshal) \<and>
         (case json_Unmarshal payload of
            Inr x \<Rightarrow>
              rv_v v' = x \<and> rv_initialized v' \<and> RemoteValue_Get v' = (x, True) \<and>
              world' = fold (\<lambda>w. w x) (rv_watchers v) worldn
          | Inl e \<Rightarrow>
              RemoteValue_Get v' = RemoteValue_Get vn \<and> world' = worldn \<and>
              rv_log v' = rv_log vn @ [(Warn, ''Failed to unmarshal payload from mqtt'')])"
    by (simp add: RemoteValue_ServeMQTT_def Let_def topic watchers effective
        RemoteValue_Get_def JsonValueUnmarshaler_def split: sum.splits)
  show "case RemoteValue_deliveries json_Unmarshal earlier v world of
        (vn, worldn) \<Rightarrow>
          (list_ex (\<lambda>(t, p). t = rv_topic v) earlier \<longrightarrow>
             rv_unmarshaler vn = Some (JsonValueUnmarshaler json_Unmarshal)) \<and>
          (case RemoteValue_ServeMQTT json_Unmarshal (rv_topic v) payload vn worldn of
             (v', world') \<Rightarrow>
               rv_unmarshaler v' = Some (JsonValueUnmarshaler json_Unmarshal) \<and>
               (case json_Unmarshal payload of
                  Inr x \<Rightarrow>
                    rv_v v' = x \<and> rv_initialized v' \<and> RemoteValue_Get v' = (x, True) \<and>
                    world' = fold (\<lambda>w. w x) (rv_watchers v) worldn
                | Inl e \<Rightarrow>
                    RemoteValue_Get v' = RemoteValue_Get vn \<and> world' = worldn \<and>
                    rv_log v' =
                      rv_log vn @ [(Warn, ''Failed to unmarshal payload from mqtt'')]))"
    unfolding run using installed next_delivery by simp
qed

theorem RemoteValue_ServeMQTT_installs_json_witness:
  "(case RemoteValue_ServeMQTT json_uint ''brightness/set'' ''7'' uint_cell [] of
      (v', world') \<Rightarrow> RemoteValue_Get v' = (7, True) \<and> world' = [7])
   \<and> (case RemoteValue_deliveries json_uint
             [(''brightness/set'', ''7''), (''brightness'', ''9'')] uint_cell [] of
        (vn, worldn) \<Rightarrow>
          RemoteValue_Get vn = (7, True) \<and> worldn = [7] \<and>
          (case RemoteValue_ServeMQTT json_uint ''brightness/set'' ''7'' vn worldn of
             (v', world') \<Rightarrow> RemoteValue_Get v' = (7, True) \<and> world' = [7, 7]) \<and>
          (case RemoteValue_ServeMQTT json_uint ''brightness/set'' ''bright'' vn worldn of
             (v', world') \<Rightarrow> RemoteValue_Get v' = (7, True) \<and> world' = [7]))
   \<and> (case RemoteValue_ServeMQTT json_uint ''brightness/set'' ''bright'' uint_cell [] of
        (v', world') \<Rightarrow> RemoteValue_Get v' = (0, False) \<and> world' = [])"
  using RemoteValue_ServeMQTT_installs_json [where v = uint_cell and json_Unmarshal = json_uint
      and earlier = "[]" and payload = "''7''" and world = "[]"]
    RemoteValue_ServeMQTT_installs_json [where v = uint_cell and json_Unmarshal = json_uint
      and earlier = "[(''brightness/set'', ''7''), (''brightness'', ''9'')]"
      and payload = "''7''" and world = "[]"]
    RemoteValue_ServeMQTT_installs_json [where v = uint_cell and json_Unmarshal = json_uint
      and earlier = "[(''brightness/set'', ''7''), (''brightness'', ''9'')]"
      and payload = "''bright''" and world = "[]"]
    RemoteValue_ServeMQTT_installs_json [where v = uint_cell and json_Unmarshal = json_uint
      and earlier = "[]" and payload = "''bright''" and world = "[]"]
  by (simp add: uint_cell_def NewRemoteValue_def NewRemoteValueWithOptions_def
      RemoteValue_Watch_def RemoteValue_ServeMQTT_def RemoteValue_Get_def json_uint_def
      JsonValueUnmarshaler_def record_call_def Let_def)


section \<open>Components: results\<close>

subsection \<open>\<open>Component.Subscribe\<close> and \<open>Component.Unsubscribe\<close>\<close>

text \<open>
  The guard of both methods is the length of \<open>subscribedTopics\<close>. A component whose list is
  not empty refuses \<open>Subscribe\<close> without touching the transport; a first \<open>Subscribe\<close>
  stores the platform's topics and calls the transport once; so a second \<open>Subscribe\<close> is
  refused whenever the platform contributes at least one subscription. \<open>Unsubscribe\<close> on an
  empty list returns nil without touching the transport.
\<close>

lemma Component_Subscribe_again:
  "c_subscribedTopics c \<noteq> [] \<Longrightarrow>
   Component_Subscribe P s c = (c, s, Some ErrComponentAlreadySubscribed)"
  by (simp add: Component_Subscribe_def)

lemma Component_Subscribe_first:
  "c_subscribedTopics c = [] \<Longrightarrow>
   Component_Subscribe P s c =
     (c\<lparr>c_subscribedTopics := map sub_Topic (Subscriptions P (c_Platform c) (c_TopicPrefix c))\<rparr>,
      s\<lparr>s_calls := s_calls s @ [SubscribeCall (Subscriptions P (c_Platform c) (c_TopicPrefix c))]\<rparr>,
      s_reply s (s_calls s) (SubscribeCall (Subscriptions P (c_Platform c) (c_TopicPrefix c))))"
  by (simp add: Component_Subscribe_def Subscriber_Subscribe_def Let_def)

lemma Component_Subscribe_twice:
  assumes "c_subscribedTopics c = []"
    and "Subscriptions P (c_Platform c) (c_TopicPrefix c) \<noteq> []"
    and "Component_Subscribe P s c = (c1, s1, r1)"
  shows "Component_Subscribe P s1 c1 = (c1, s1, Some ErrComponentAlreadySubscribed)"
proof -
  have "c_subscribedTopics c1 \<noteq> []"
    using assms by (auto simp: Component_Subscribe_first)
  then show ?thesis by (rule Component_Subscribe_again)
qed

lemma Component_Unsubscribe_nothing:
  "c_subscribedTopics c = [] \<Longrightarrow> Component_Unsubscribe s c = (c, s, None)"
  by (simp add: Component_Unsubscribe_def)

text \<open>
  C9 (a second \<open>Subscribe\<close> fails with "already subscribed" and performs no transport
  action, on every platform, also one with no subscriptions). A sensor contributes no
  subscription, so the first \<open>Subscribe\<close> leaves \<open>subscribedTopics\<close> empty: the second
  \<open>Subscribe\<close> passes the guard, calls the transport again and returns what it answers,
  here nil.
\<close>

theorem Component_Subscribe_twice_without_subscriptions:
  "(case Component_Subscribe (Sensor_Platform GoString) accepting_subscriber complete_sensor of
      (c1, s1, r1) \<Rightarrow>
        r1 = None \<and> s_calls s1 = [SubscribeCall []] \<and>
        (case Component_Subscribe (Sensor_Platform GoString) s1 c1 of
           (c2, s2, r2) \<Rightarrow> r2 = None \<and> s_calls s2 = [SubscribeCall [], SubscribeCall []]))"
  by (simp add: Component_Subscribe_def Subscriber_Subscribe_def Sensor_Platform_def
      Sensor_Subscriptions_def complete_sensor_def component_of_def accepting_subscriber_def Let_def)

section \<open>Discovery documents: results\<close>

subsection \<open>Errors found by \<open>errors.Is\<close> survive every join\<close>





















subsection \<open>\<open>Device.Configure\<close>\<close>

text \<open>
  C3. On a device with no identifier and no connection, \<open>Configure\<close> returns
  \<open>ErrInvalidDevice\<close> and the writer as it was given, so no \<open>WriteTopic\<close> call is made,
  whatever the components, the encoder and the transport are. A device with an identifier
  or a connection passes \<open>Valid\<close>.
\<close>

theorem Device_Configure_invalid_device:
  "(d_Identifiers d = [] \<and> d_Connections d = [] \<longrightarrow>
      Device_Configure reject bytes w discoveryPrefix components d = (w, Some ErrInvalidDevice))
   \<and> (d_Identifiers d \<noteq> [] \<or> d_Connections d \<noteq> [] \<longrightarrow> Device_Valid d = None)"
  by (auto simp add: Device_Configure_def Device_Valid_def)

theorem Device_Configure_invalid_device_witness:
  "Device_Configure accept_all no_bytes online_writer ''homeassistant'' good_components
      anonymous_device = (online_writer, Some ErrInvalidDevice)
   \<and> w_calls online_writer = []
   \<and> Device_Valid example_device = None
   \<and> Device_Valid (device_of [] [\<lparr>dc_Kind = ''mac'', dc_Value = ''02:5b:26:a8:dc:12''\<rparr>]) = None"
  using Device_Configure_invalid_device [where d = anonymous_device and reject = accept_all
      and bytes = no_bytes and w = online_writer and discoveryPrefix = "''homeassistant''"
      and components = good_components]
    Device_Configure_invalid_device [where d = example_device]
    Device_Configure_invalid_device
      [where d = "device_of [] [\<lparr>dc_Kind = ''mac'', dc_Value = ''02:5b:26:a8:dc:12''\<rparr>]"]
  by (simp add: anonymous_device_def example_device_def device_of_def online_writer_def)



text \<open>
  The two assemblies evaluated: the faulty components give the one joined error and no
  write; the complete component gives one retained write to the device's config topic.
\<close>

lemmas field_defs =
  FieldStateTopic_def FieldCommandTopic_def FieldOnCommandType_def FieldOptimistic_def
  FieldPayloadOn_def FieldPayloadOff_def FieldColorModeStateTopic_def FieldColorModeCommandTopic_def
  FieldSupportedColorModes_def FieldBrightnessCommandTopic_def FieldBrightnessStateTopic_def
  FieldBrightnessScale_def FieldColorTemperatureCommandTopic_def FieldColorTemperatureStateTopic_def
  FieldColorTemperatureInKelvin_def FieldMinKelvin_def FieldMaxKelvin_def FieldMinMireds_def
  FieldMaxMireds_def FieldHueSatCommandTopic_def FieldHueSatStateTopic_def FieldXYCommandTopic_def
  FieldXYStateTopic_def FieldRGBCommandTopic_def FieldRGBStateTopic_def FieldRGBWCommandTopic_def
  FieldRGBWStateTopic_def FieldRGBWWCommandTopic_def FieldRGBWWStateTopic_def
  FieldWhiteCommandTopic_def FieldWhiteScale_def FieldEffectCommandTopic_def FieldEffectStateTopic_def
  FieldEffectList_def FieldDevice_def FieldOrigin_def FieldComponents_def FieldEntityCategory_def
  FieldIcon_def FieldPicture_def FieldPlatform_def FieldDefaultEntityID_def FieldUniqueID_def
  FieldQualityOfService_def FieldRetain_def FieldAvailabilityTopic_def FieldPayloadAvailable_def
  FieldPayloadNotAvailable_def FieldExpireMeasurementsAfter_def FieldForceUpdate_def
  FieldAttributesTopic_def FieldOptions_def FieldSuggestedDisplayPrecision_def FieldStateClass_def
  FieldUnitOfMeasurement_def FieldOffDelay_def

lemmas helper_defs =
  errors_Join_calls_def errors_Join_def List.map_filter_def MaybeMarshalTopic_def
  MarshalRequiredTopic_def MarshalRequiredValueTopic_def MarshalRequiredRemoteValueTopic_def
  MaybeMarshalValueTopic_def MaybeMarshalRemoteValueTopic_def
  MaybeMarshalStateAndCommandTopics_def MaybeMarshalStd_def MarshalStd_def
  MaybeMarshalStdSlice_def MarshalStdComparable_def MaybeMarshalStdComparable_def
  MarshalStdIfNot_def WriteToken_def MarshalEncode_def encoder_write_def NewEncoder_def
  Value_FullyQualifiedTopic_def RemoteValue_FullyQualifiedTopic_def
  JoinTopic_def TrimTopic_def strings_Trim_def TopicSeparator_def
  NewValue_def NewValueWithOptions_def NewRemoteValue_def NewRemoteValueWithOptions_def
  accept_all_def DefaultLightOnCommandType_def LightOnCommandTypeLast_def

lemma Device_Configure_faulty_components:
  "Device_Configure accept_all no_bytes online_writer ''homeassistant'' faulty_components
     example_device =
   (online_writer,
    Some (Errorf ''configure: marshal discovery config''
      (Joined
        [Joined
          [Joined
            [SemanticError (Joined [Errorf ''availability'' (ErrorNew ''topic is required'')])],
           SemanticError
             (Joined [Joined [Errorf ''state'' (ErrorNew ''topic is required'')]])]])))"
  by (simp add: Device_Configure_def Device_Valid_def example_device_def device_of_def
      faulty_components_def Component_MarshalJSONTo_def MaybeInlineMarshalStd_def
      MarshalEncode_MarshalerTo_def Light_Platform_def Sensor_Platform_def
      Light_PlatformName_def Sensor_PlatformName_def Light_MarshalDiscoveryTo_def
      Sensor_MarshalDiscoveryTo_def light_without_availability_def sensor_without_state_def
      component_of_def sensor_of_def bare_light_def StringUnmarshaler_def
      ErrTopicRequired_def WriteOptions_zero_def helper_defs field_defs Let_def)

lemma Device_Configure_good_components:
  "w_calls (fst (Device_Configure accept_all no_bytes online_writer ''homeassistant''
      good_components example_device)) =
     [(''homeassistant/device/hqtt__example__fake_light__Example__Device/config'',
       \<lparr>wo_QoS = 0, wo_Retain = True\<rparr>, '''')]
   \<and> snd (Device_Configure accept_all no_bytes online_writer ''homeassistant''
      good_components example_device) = None"
  by (simp add: Device_Configure_def Device_Valid_def Device_ID_def ID_field_def writeSep_def
      IDSanitizer_Replace_def IDSep_def WriteTopic_def online_writer_def no_bytes_def
      example_device_def device_of_def
      good_components_def Component_MarshalJSONTo_def MaybeInlineMarshalStd_def
      MarshalEncode_MarshalerTo_def Sensor_Platform_def Sensor_PlatformName_def
      Sensor_MarshalDiscoveryTo_def complete_sensor_def
      component_of_def sensor_of_def WriteOptions_zero_def helper_defs field_defs Let_def)

subsection \<open>Paired state and command topics\<close>

text \<open>
  What \<open>MaybeMarshalStateAndCommandTopics\<close> does with the two cells it is given: neither
  cell, nothing written and no error; one cell only, nothing written and the error
  "state and command topics must both be configured"; both cells, with non-empty
  fully-qualified topics on an encoder that accepts them, the state topic under the state
  key and the command topic under the command key.
\<close>

lemma MaybeMarshalStateAndCommandTopics_neither:
  "MaybeMarshalStateAndCommandTopics name sk None ck None prefix e = (e, None)"
  by (simp add: MaybeMarshalStateAndCommandTopics_def)

lemma MaybeMarshalStateAndCommandTopics_state_only:
  "MaybeMarshalStateAndCommandTopics name sk (Some s) ck None prefix e =
     (e, Some (Errorf name ErrMissingStateOrCommandTopic))"
  by (simp add: MaybeMarshalStateAndCommandTopics_def)

lemma MaybeMarshalStateAndCommandTopics_command_only:
  "MaybeMarshalStateAndCommandTopics name sk None ck (Some c) prefix e =
     (e, Some (Errorf name ErrMissingStateOrCommandTopic))"
  by (simp add: MaybeMarshalStateAndCommandTopics_def)

lemma MaybeMarshalStateAndCommandTopics_both:
  assumes "JoinTopic [prefix, v_topic s] \<noteq> []" and "JoinTopic [prefix, rv_topic c] \<noteq> []"
    and "e_reject e = accept_all"
  shows "MaybeMarshalStateAndCommandTopics name sk (Some s) ck (Some c) prefix e =
     (e\<lparr>e_written := e_written e @
          [Token (String sk), Token (String (JoinTopic [prefix, v_topic s])),
           Token (String ck), Token (String (JoinTopic [prefix, rv_topic c]))]\<rparr>, None)"
  using assms
  by (simp add: MaybeMarshalStateAndCommandTopics_def errors_Join_calls_def errors_Join_def
      List.map_filter_def MarshalRequiredValueTopic_def MarshalRequiredRemoteValueTopic_def
      MarshalRequiredTopic_def MaybeMarshalTopic_def WriteToken_def encoder_write_def
      Value_FullyQualifiedTopic_def RemoteValue_FullyQualifiedTopic_def accept_all_def)

text \<open>
  C5 (each pair of the light is emitted under its own state and command keys, or
  reported, or omitted). \<open>Light.MarshalDiscoveryTo\<close> hands the pair named "hue sat" the
  colour temperature cells and never reads the hue/saturation cells: with both
  hue/saturation cells configured no \<open>hs_stat_t\<close> and no \<open>hs_cmd_t\<close> is written, and with
  the state cell alone no error is returned. It hands the pair named "xy" the keys the
  wrong way round: the state topic is written under \<open>xy_cmd_t\<close> and the command topic
  under \<open>xy_stat_t\<close>.
\<close>

theorem Light_MarshalDiscoveryTo_hue_sat_and_xy:
  "e_written (fst (Light_MarshalDiscoveryTo hs_light ''hqtt/lamp'' (NewEncoder accept_all no_bytes))) =
     [Token (String ''cmd_t''), Token (String ''hqtt/lamp/command''),
      Token (String ''sup_clrm''), Value (GoSlice [])]
   \<and> snd (Light_MarshalDiscoveryTo hs_light ''hqtt/lamp'' (NewEncoder accept_all no_bytes)) = None
   \<and> e_written (fst (Light_MarshalDiscoveryTo hs_state_only_light ''hqtt/lamp''
        (NewEncoder accept_all no_bytes))) =
     [Token (String ''cmd_t''), Token (String ''hqtt/lamp/command''),
      Token (String ''sup_clrm''), Value (GoSlice [])]
   \<and> snd (Light_MarshalDiscoveryTo hs_state_only_light ''hqtt/lamp''
        (NewEncoder accept_all no_bytes)) = None
   \<and> e_written (fst (Light_MarshalDiscoveryTo xy_light ''hqtt/lamp'' (NewEncoder accept_all no_bytes))) =
     [Token (String ''cmd_t''), Token (String ''hqtt/lamp/command''),
      Token (String ''sup_clrm''), Value (GoSlice []),
      Token (String ''xy_cmd_t''), Token (String ''hqtt/lamp/xy''),
      Token (String ''xy_stat_t''), Token (String ''hqtt/lamp/xy/set'')]
   \<and> snd (Light_MarshalDiscoveryTo xy_light ''hqtt/lamp'' (NewEncoder accept_all no_bytes)) = None"
  by (simp add: Light_MarshalDiscoveryTo_def hs_light_def hs_state_only_light_def xy_light_def
      bare_light_def helper_defs field_defs)


end
